theory Spec2Isabelle
  imports Main "HOL-Library.Multiset"
begin

section \<open>Data model\<close>

text \<open>
  A JavaScript exception value. The services read it only through
  \<^verbatim>\<open>err instanceof Error ? err.message : 'Unknown error'\<close>, so a thrown value is
  either an \<^verbatim>\<open>Error\<close> carrying its message or something else.
\<close>

datatype thrown = Error string | NonError

fun errorMessage :: "thrown \<Rightarrow> string" where
  "errorMessage (Error m) = m"
| "errorMessage NonError = ''Unknown error''"

text \<open>\<^verbatim>\<open>RSSItem\<close> and \<^verbatim>\<open>RSSFeed\<close> of clients/nitter-client.ts.\<close>

record RSSItem =
  title :: string
  link :: string
  pubDate :: string
  description :: "string option"
  guid :: "string option"

record RSSFeed =
  items :: "RSSItem list"
  feedTitle :: "string option"
  feedDescription :: "string option"
  lastBuildDate :: "string option"

text \<open>
  \<^verbatim>\<open>ParsedTweet\<close> of clients/telegram-client.ts. A \<^verbatim>\<open>Date\<close> is its
  \<^verbatim>\<open>getTime()\<close> value, an integer number of milliseconds.
\<close>

record ParsedTweet =
  id_tw :: string
  text_tw :: string
  link_tw :: string
  publishedAt :: int

text \<open>\<^verbatim>\<open>TweetRecord\<close>: one row of the table \<^verbatim>\<open>tweets_processed\<close> (sql/001_init.sql).\<close>

record TweetRecord =
  id_row :: string
  published_at :: int
  created_at :: int

section \<open>The outside world\<close>

text \<open>
  The statements a \<^verbatim>\<open>TweetRepository\<close> sends through \<^verbatim>\<open>DatabaseService.query\<close>:
  \<^item> \<^verbatim>\<open>SELECT 1 FROM tweets_processed WHERE id = $1 LIMIT 1\<close>
  \<^item> \<^verbatim>\<open>SELECT id FROM tweets_processed WHERE id IN ($1, ..., $n)\<close>
  \<^item> \<^verbatim>\<open>INSERT INTO tweets_processed (id, published_at) VALUES ($1, $2)
     ON CONFLICT (id) DO NOTHING RETURNING id\<close>
\<close>

datatype sql =
    SelectExists string
  | SelectIdIn "string list"
  | InsertProcessed string int

text \<open>
  Every call that leaves the service is written to a trace together with what came back
  (\<open>Inl\<close> is a thrown exception, \<open>Inr\<close> the returned value), oldest call first.
\<close>

datatype event =
    FetchRSS "thrown + string"
  | DbQuery sql "thrown + string list"
  | TelegramSend ParsedTweet "thrown + bool"
  | DiscordSend ParsedTweet "thrown + bool"
  | DiscordAlert string string "thrown + bool"
  | Sleep nat

record world =
  tweets_processed :: "TweetRecord list"
  trace :: "event list"

text \<open>
  The collaborators the orchestration code is handed. What each answers may depend on
  everything that has happened so far, so each takes the trace. \<open>parse\<close> is
  \<^verbatim>\<open>RSSParser.parse\<close> (fast-xml-parser behind it); the six string helpers are the private
  methods of \<^verbatim>\<open>RSSParser\<close> that rest on the JavaScript regular-expression engine and on
  \<^verbatim>\<open>new Date(string)\<close>. \<open>db_error\<close> says whether \<^verbatim>\<open>DatabaseService.query\<close> throws
  (pool shutting down, connection or statement failure) instead of running the statement;
  \<open>now\<close> is the database clock behind \<^verbatim>\<open>DEFAULT NOW()\<close>.
\<close>

record env =
  fetchRSS :: "event list \<Rightarrow> thrown + string"
  parse :: "string \<Rightarrow> thrown + RSSFeed"
  extractTweetId :: "string \<Rightarrow> string option"
  parseDate :: "string \<Rightarrow> int option"
  cleanTweetText :: "string \<Rightarrow> string"
  isRetweet :: "string \<Rightarrow> bool"
  isReply :: "string \<Rightarrow> bool"
  convertToTwitterLink :: "string \<Rightarrow> string"
  telegram_sendTweet :: "event list \<Rightarrow> ParsedTweet \<Rightarrow> thrown + bool"
  discord_sendTweet :: "event list \<Rightarrow> ParsedTweet \<Rightarrow> thrown + bool"
  discord_sendAlert :: "event list \<Rightarrow> string \<Rightarrow> string \<Rightarrow> thrown + bool"
  db_error :: "event list \<Rightarrow> sql \<Rightarrow> thrown option"
  now :: "event list \<Rightarrow> int"

definition emit :: "event \<Rightarrow> world \<Rightarrow> world" where
  "emit e w = w\<lparr>trace := trace w @ [e]\<rparr>"

section \<open>The database (db/database.ts, sql/001_init.sql)\<close>

text \<open>
  What each statement does to the table and which rows it returns. A returned row is
  shown by its single column. \<^verbatim>\<open>id\<close> is the primary key, so the insert lands only when
  no row has that id; \<^verbatim>\<open>ON CONFLICT (id) DO NOTHING\<close> then returns no row.
\<close>

fun run_sql :: "int \<Rightarrow> sql \<Rightarrow> TweetRecord list \<Rightarrow> string list \<times> TweetRecord list" where
  "run_sql t (SelectExists i) tbl =
     (map (\<lambda>_. ''1'') (take 1 (filter (\<lambda>r. id_row r = i) tbl)), tbl)"
| "run_sql t (SelectIdIn is) tbl =
     (map id_row (filter (\<lambda>r. id_row r \<in> set is) tbl), tbl)"
| "run_sql t (InsertProcessed i p) tbl =
     (if i \<in> set (map id_row tbl) then ([], tbl)
      else ([i], tbl @ [\<lparr>id_row = i, published_at = p, created_at = t\<rparr>]))"

text \<open>\<^verbatim>\<open>DatabaseService.query\<close>: throws, or runs the statement and returns its rows.\<close>

definition query :: "env \<Rightarrow> sql \<Rightarrow> world \<Rightarrow> (thrown + string list) \<times> world" where
  "query env q w =
     (case db_error env (trace w) q of
        Some e \<Rightarrow> (Inl e, emit (DbQuery q (Inl e)) w)
      | None \<Rightarrow>
          (let (rs, tbl) = run_sql (now env (trace w)) q (tweets_processed w)
           in (Inr rs, emit (DbQuery q (Inr rs)) (w\<lparr>tweets_processed := tbl\<rparr>))))"

section \<open>TweetRepository (db/tweet-repository.ts)\<close>

definition exists_tw :: "env \<Rightarrow> string \<Rightarrow> world \<Rightarrow> (thrown + bool) \<times> world" where
  "exists_tw env tweetId w =
     (case query env (SelectExists tweetId) w of
        (Inl e, w') \<Rightarrow> (Inl e, w')
      | (Inr rs, w') \<Rightarrow> (Inr (length rs > 0), w'))"

definition filterExisting :: "env \<Rightarrow> string list \<Rightarrow> world \<Rightarrow> (thrown + string set) \<times> world" where
  "filterExisting env tweetIds w =
     (if length tweetIds = 0 then (Inr {}, w)
      else (case query env (SelectIdIn tweetIds) w of
              (Inl e, w') \<Rightarrow> (Inl e, w')
            | (Inr rs, w') \<Rightarrow> (Inr (set rs), w')))"

definition markAsProcessed :: "env \<Rightarrow> string \<Rightarrow> int \<Rightarrow> world \<Rightarrow> (thrown + bool) \<times> world" where
  "markAsProcessed env tweetId p w =
     (case query env (InsertProcessed tweetId p) w of
        (Inl e, w') \<Rightarrow> (Inl e, w')
      | (Inr rs, w') \<Rightarrow> (Inr (length rs > 0), w'))"

section \<open>RSSParser (utils/rss-parser.ts)\<close>

text \<open>
  \<^verbatim>\<open>rssItemToTweet\<close>: an item without a tweet id in its link or without a readable date,
  a retweet and a reply give no tweet. \<^verbatim>\<open>!tweetId\<close> also rejects the empty string.
\<close>

definition rssItemToTweet :: "env \<Rightarrow> RSSItem \<Rightarrow> ParsedTweet option" where
  "rssItemToTweet env item =
     (case extractTweetId env (link item) of
        None \<Rightarrow> None
      | Some tweetId \<Rightarrow>
          if tweetId = [] then None
          else
            (case parseDate env (pubDate item) of
               None \<Rightarrow> None
             | Some date \<Rightarrow>
                 (let text = cleanTweetText env (title item) in
                  if isRetweet env text then None
                  else if isReply env text then None
                  else Some \<lparr>id_tw = tweetId, text_tw = text,
                              link_tw = convertToTwitterLink env (link item),
                              publishedAt = date\<rparr>)))"

text \<open>
  \<^verbatim>\<open>toTweets\<close>: convert every item, keep the ones that gave a tweet, then
  \<^verbatim>\<open>tweets.sort((a, b) => a.publishedAt.getTime() - b.publishedAt.getTime())\<close>.
  \<^verbatim>\<open>Array.prototype.sort\<close> is stable, and so is \<^const>\<open>sort_key\<close>.
\<close>

definition toTweets :: "env \<Rightarrow> RSSFeed \<Rightarrow> ParsedTweet list" where
  "toTweets env feed = sort_key publishedAt (List.map_filter (rssItemToTweet env) (items feed))"

section \<open>Deduplication against the store\<close>

text \<open>
  Step 3 of a cycle, the same three statements in \<^verbatim>\<open>process\<close> and in \<^verbatim>\<open>poll\<close>:
  \<^verbatim>\<open>const tweetIds = allTweets.map((t) => t.id);
  const existingIds = await this.tweetRepository.filterExisting(tweetIds);
  const newTweets = allTweets.filter((t) => !existingIds.has(t.id));\<close>
\<close>

definition selectNewTweets ::
  "env \<Rightarrow> ParsedTweet list \<Rightarrow> world \<Rightarrow> (thrown + string set \<times> ParsedTweet list) \<times> world" where
  "selectNewTweets env allTweets w =
     (let tweetIds = map id_tw allTweets
      in case filterExisting env tweetIds w of
           (Inl err, w) \<Rightarrow> (Inl err, w)
         | (Inr existingIds, w) \<Rightarrow>
             (Inr (existingIds, filter (\<lambda>t. id_tw t \<notin> existingIds) allTweets), w))"

section \<open>SocialRelayService with failure tracking (process, processSingleTweet)\<close>

record ProcessingResult =
  totalFetched :: nat
  newTweets :: nat
  telegramSuccess :: nat
  telegramFailed :: nat
  discordSuccess :: nat
  discordFailed :: nat
  errors :: "string list"

text \<open>The mutable fields of the service object.\<close>

record SocialRelayService =
  consecutiveFailures :: nat
  alertSent :: bool

definition FAILURE_THRESHOLD :: nat where
  "FAILURE_THRESHOLD = 3"

text \<open>Template-literal rendering of a non-negative integer, and \<^verbatim>\<open>Array.join\<close>.\<close>

fun show_nat :: "nat \<Rightarrow> string" where
  "show_nat n =
     (if n < 10 then [char_of (48 + n)]
      else show_nat (n div 10) @ [char_of (48 + n mod 10)])"

fun join :: "string \<Rightarrow> string list \<Rightarrow> string" where
  "join sep [] = []"
| "join sep [x] = x"
| "join sep (x # y # ys) = x @ sep @ join sep (y # ys)"

declare show_nat.simps [simp del]

text \<open>The bullet U+2022 of the alert text, in UTF-8.\<close>

definition bullet :: string where
  "bullet = [char_of (0xE2::nat), char_of (0x80::nat), char_of (0xA2::nat)]"

definition alertTitle :: string where
  "alertTitle = ''Nitter RSS Feed Failure''"

definition alertBody :: "SocialRelayService \<Rightarrow> string \<Rightarrow> string" where
  "alertBody svc msg = join [char_of (10::nat)]
     [''The bot has failed to fetch tweets '' @ show_nat (consecutiveFailures svc)
        @ '' times in a row.'',
      [],
      ''**Possible causes:**'',
      bullet @ '' Twitter session cookies expired'',
      bullet @ '' Twitter account suspended/banned'',
      bullet @ '' Nitter container stopped or crashed'',
      bullet @ '' Network connectivity issues'',
      [],
      ''**Last error:** '' @ msg,
      [],
      ''**Action required:** Check Nitter logs and session status.'',
      ''```bash'',
      ''docker logs nitter --tail 50'',
      ''```'']"

text \<open>
  \<^verbatim>\<open>sendNitterFailureAlert\<close>: one call of \<^verbatim>\<open>discordClient.sendAlert\<close>; whatever it
  returns or throws is only logged.
\<close>

definition sendNitterFailureAlert :: "env \<Rightarrow> SocialRelayService \<Rightarrow> string \<Rightarrow> world \<Rightarrow> world" where
  "sendNitterFailureAlert env svc msg w =
     emit (DiscordAlert alertTitle (alertBody svc msg)
             (discord_sendAlert env (trace w) alertTitle (alertBody svc msg))) w"

text \<open>
  \<^verbatim>\<open>processSingleTweet\<close>: send to Telegram, send to Discord, mark as processed if at least
  one of them returned true, sleep one second. Every exception is caught inside.
  \<open>countTelegram\<close> and \<open>countDiscord\<close> are what the two try/catch blocks do to the result
  object once the send has returned or thrown.
\<close>

definition countTelegram :: "ParsedTweet \<Rightarrow> thrown + bool \<Rightarrow> ProcessingResult \<Rightarrow> ProcessingResult" where
  "countTelegram tweet tg result =
     (case tg of
        Inr ok \<Rightarrow>
          if ok then result\<lparr>telegramSuccess := telegramSuccess result + 1\<rparr>
          else result\<lparr>telegramFailed := telegramFailed result + 1,
                 errors := errors result @ [''Telegram send failed for tweet '' @ id_tw tweet]\<rparr>
      | Inl err \<Rightarrow>
          result\<lparr>telegramFailed := telegramFailed result + 1,
                 errors := errors result @
                   [''Telegram error for tweet '' @ id_tw tweet @ '': '' @ errorMessage err]\<rparr>)"

definition countDiscord :: "ParsedTweet \<Rightarrow> thrown + bool \<Rightarrow> ProcessingResult \<Rightarrow> ProcessingResult" where
  "countDiscord tweet dc result =
     (case dc of
        Inr ok \<Rightarrow>
          if ok then result\<lparr>discordSuccess := discordSuccess result + 1\<rparr>
          else result\<lparr>discordFailed := discordFailed result + 1,
                 errors := errors result @ [''Discord send failed for tweet '' @ id_tw tweet]\<rparr>
      | Inl err \<Rightarrow>
          result\<lparr>discordFailed := discordFailed result + 1,
                 errors := errors result @
                   [''Discord error for tweet '' @ id_tw tweet @ '': '' @ errorMessage err]\<rparr>)"

definition processSingleTweet ::
  "env \<Rightarrow> ParsedTweet \<Rightarrow> ProcessingResult \<times> world \<Rightarrow> ProcessingResult \<times> world" where
  "processSingleTweet env tweet rw =
     (let tg = telegram_sendTweet env (trace (snd rw)) tweet;
          w1 = emit (TelegramSend tweet tg) (snd rw);
          telegramOk = (tg = Inr True);
          result1 = countTelegram tweet tg (fst rw);
          dc = discord_sendTweet env (trace w1) tweet;
          w2 = emit (DiscordSend tweet dc) w1;
          discordOk = (dc = Inr True);
          result2 = countDiscord tweet dc result1
      in if telegramOk \<or> discordOk then
           (case markAsProcessed env (id_tw tweet) (publishedAt tweet) w2 of
              (Inr b, w3) \<Rightarrow> (result2, emit (Sleep 1000) w3)
            | (Inl err, w3) \<Rightarrow>
                (result2\<lparr>errors := errors result2 @
                   [''DB error for tweet '' @ id_tw tweet @ '': '' @ errorMessage err]\<rparr>,
                 emit (Sleep 1000) w3))
         else (result2, emit (Sleep 1000) w2))"

text \<open>The first-run loop over \<^verbatim>\<open>olderTweets\<close>; an exception leaves the loop.\<close>

fun markOlder :: "env \<Rightarrow> ParsedTweet list \<Rightarrow> world \<Rightarrow> thrown option \<times> world" where
  "markOlder env [] w = (None, w)"
| "markOlder env (tweet # rest) w =
     (case markAsProcessed env (id_tw tweet) (publishedAt tweet) w of
        (Inl err, w') \<Rightarrow> (Some err, w')
      | (Inr b, w') \<Rightarrow> markOlder env rest w')"

text \<open>The loop \<^verbatim>\<open>for (const tweet of newTweets) await this.processSingleTweet(tweet, result)\<close>.\<close>

fun processEach ::
  "env \<Rightarrow> ParsedTweet list \<Rightarrow> ProcessingResult \<times> world \<Rightarrow> ProcessingResult \<times> world" where
  "processEach env [] rw = rw"
| "processEach env (tweet # rest) rw = processEach env rest (processSingleTweet env tweet rw)"

text \<open>The end of the try block: \<^verbatim>\<open>if (this.consecutiveFailures > 0) { ... }\<close>.\<close>

definition resetFailures :: "SocialRelayService \<Rightarrow> SocialRelayService" where
  "resetFailures svc =
     (if consecutiveFailures svc > 0 then svc\<lparr>consecutiveFailures := 0, alertSent := False\<rparr>
      else svc)"

definition emptyResult :: ProcessingResult where
  "emptyResult = \<lparr>totalFetched = 0, newTweets = 0, telegramSuccess = 0, telegramFailed = 0,
                   discordSuccess = 0, discordFailed = 0, errors = []\<rparr>"

text \<open>
  The try block of \<^verbatim>\<open>process\<close>. The first component is the exception that left the
  block, if any; the result object and the service fields are as the block left them.
  The two early returns leave the service fields alone; only the end of the block resets
  them. In the first-run branch \<^verbatim>\<open>latestTweet = newTweets[0]!\<close> and
  \<^verbatim>\<open>olderTweets = newTweets.slice(1)\<close>; the branch is entered with more than one new
  tweet, so the list has a head.
\<close>

definition process_try ::
  "env \<Rightarrow> SocialRelayService \<Rightarrow> world \<Rightarrow>
   thrown option \<times> ProcessingResult \<times> SocialRelayService \<times> world" where
  "process_try env svc w =
     (let result = emptyResult;
          fetched = fetchRSS env (trace w);
          w = emit (FetchRSS fetched) w
      in case fetched of
           Inl err \<Rightarrow> (Some err, result, svc, w)
         | Inr xmlContent \<Rightarrow>
             (case parse env xmlContent of
                Inl err \<Rightarrow> (Some err, result, svc, w)
              | Inr feed \<Rightarrow>
                  (let allTweets = toTweets env feed;
                       result = result\<lparr>totalFetched := length allTweets\<rparr>
                   in if length allTweets = 0 then (None, result, svc, w)
                      else
                        (case selectNewTweets env allTweets w of
                              (Inl err, w) \<Rightarrow> (Some err, result, svc, w)
                            | (Inr (existingIds, newTw), w) \<Rightarrow>
                                (let result = result\<lparr>newTweets := length newTw\<rparr>
                                 in if length newTw = 0 then (None, result, svc, w)
                                    else
                                      (let isFirstRun = (card existingIds = 0 \<and>
                                                         length newTw = totalFetched result)
                                       in if isFirstRun \<and> length newTw > 1 then
                                            (let latestTweet = hd newTw;
                                                 olderTweets = tl newTw
                                             in case markOlder env olderTweets w of
                                                  (Some err, w) \<Rightarrow> (Some err, result, svc, w)
                                                | (None, w) \<Rightarrow>
                                                    (let (result, w) =
                                                           processSingleTweet env latestTweet (result, w)
                                                     in (None, result\<lparr>newTweets := 1\<rparr>,
                                                         resetFailures svc, w)))
                                          else
                                            (let (result, w) = processEach env newTw (result, w)
                                             in (None, result, resetFailures svc, w))))))))"

text \<open>\<^verbatim>\<open>process\<close>: the try block, and the catch block when an exception left it.\<close>

definition process ::
  "env \<Rightarrow> SocialRelayService \<Rightarrow> world \<Rightarrow> ProcessingResult \<times> SocialRelayService \<times> world" where
  "process env svc w =
     (case process_try env svc w of
        (None, result, svc, w) \<Rightarrow> (result, svc, w)
      | (Some err, result, svc, w) \<Rightarrow>
          (let msg = errorMessage err;
               result = result\<lparr>errors := errors result @ [msg]\<rparr>;
               svc = svc\<lparr>consecutiveFailures := consecutiveFailures svc + 1\<rparr>
           in if consecutiveFailures svc \<ge> FAILURE_THRESHOLD \<and> \<not> alertSent svc then
                (result, svc\<lparr>alertSent := True\<rparr>, sendNitterFailureAlert env svc msg w)
              else (result, svc, w)))"

section \<open>SocialRelayService with per-tweet outcomes (poll, processTweet)\<close>

record TweetProcessingResult =
  tweetId :: string
  telegram :: bool
  discord :: bool
  dbSaved :: bool
  skipped :: bool
  error_tw :: "string option"

record PollingResult =
  success :: bool
  tweetsFound :: nat
  tweetsProcessed :: nat
  results :: "TweetProcessingResult list"
  error_poll :: "string option"

text \<open>
  \<^verbatim>\<open>processTweet\<close>: ask the store again, send to both channels, save if one of them
  returned true. Only the save is inside a try block here.
\<close>

definition processTweet ::
  "env \<Rightarrow> ParsedTweet \<Rightarrow> world \<Rightarrow> (thrown + TweetProcessingResult) \<times> world" where
  "processTweet env tweet w =
     (case exists_tw env (id_tw tweet) w of
        (Inl err, w) \<Rightarrow> (Inl err, w)
      | (Inr ex, w) \<Rightarrow>
          if ex then
            (Inr \<lparr>tweetId = id_tw tweet, telegram = False, discord = False, dbSaved = False,
                  skipped = True, error_tw = None\<rparr>, w)
          else
            (let tg = telegram_sendTweet env (trace w) tweet;
                 w = emit (TelegramSend tweet tg) w
             in case tg of
                  Inl err \<Rightarrow> (Inl err, w)
                | Inr telegramOk \<Rightarrow>
                    (let dc = discord_sendTweet env (trace w) tweet;
                         w = emit (DiscordSend tweet dc) w
                     in case dc of
                          Inl err \<Rightarrow> (Inl err, w)
                        | Inr discordOk \<Rightarrow>
                            (let (saved, w) =
                                   (if telegramOk \<or> discordOk then
                                      (case markAsProcessed env (id_tw tweet) (publishedAt tweet) w of
                                         (Inr b, w') \<Rightarrow> (b, w')
                                       | (Inl err, w') \<Rightarrow> (False, w'))
                                    else (False, w))
                             in (Inr \<lparr>tweetId = id_tw tweet, telegram = telegramOk,
                                      discord = discordOk, dbSaved = saved, skipped = False,
                                      error_tw = (if \<not> telegramOk \<and> \<not> discordOk
                                                  then Some ''Both Telegram and Discord failed''
                                                  else None)\<rparr>, w)))))"

text \<open>
  The loop of \<^verbatim>\<open>poll\<close>. Every tweet object is a fresh one, so
  \<^verbatim>\<open>newTweets.indexOf(tweet) < newTweets.length - 1\<close> says that the tweet is not the last.
\<close>

fun pollEach ::
  "env \<Rightarrow> ParsedTweet list \<Rightarrow> TweetProcessingResult list \<Rightarrow> world \<Rightarrow>
   (thrown + TweetProcessingResult list) \<times> world" where
  "pollEach env [] rs w = (Inr rs, w)"
| "pollEach env (tweet # rest) rs w =
     (case processTweet env tweet w of
        (Inl err, w') \<Rightarrow> (Inl err, w')
      | (Inr r, w') \<Rightarrow>
          pollEach env rest (rs @ [r]) (if rest \<noteq> [] then emit (Sleep 1000) w' else w'))"

definition poll_try :: "env \<Rightarrow> world \<Rightarrow> (thrown + PollingResult) \<times> world" where
  "poll_try env w =
     (let fetched = fetchRSS env (trace w);
          w = emit (FetchRSS fetched) w
      in case fetched of
           Inl err \<Rightarrow> (Inl err, w)
         | Inr rssContent \<Rightarrow>
             (case parse env rssContent of
                Inl err \<Rightarrow> (Inl err, w)
              | Inr feed \<Rightarrow>
                  (let tweets = toTweets env feed
                   in if length tweets = 0 then
                        (Inr \<lparr>success = True, tweetsFound = 0, tweetsProcessed = 0, results = [],
                              error_poll = None\<rparr>, w)
                      else
                        (case selectNewTweets env tweets w of
                              (Inl err, w) \<Rightarrow> (Inl err, w)
                            | (Inr (existingIds, newTw), w) \<Rightarrow>
                                (if length newTw = 0 then
                                      (Inr \<lparr>success = True, tweetsFound = length tweets,
                                            tweetsProcessed = 0, results = [],
                                            error_poll = None\<rparr>, w)
                                    else
                                      (case pollEach env newTw [] w of
                                         (Inl err, w) \<Rightarrow> (Inl err, w)
                                       | (Inr rs, w) \<Rightarrow>
                                           (Inr \<lparr>success = True, tweetsFound = length tweets,
                                                 tweetsProcessed = length (filter dbSaved rs),
                                                 results = rs, error_poll = None\<rparr>, w)))))))"

definition poll :: "env \<Rightarrow> world \<Rightarrow> PollingResult \<times> world" where
  "poll env w =
     (case poll_try env w of
        (Inr r, w) \<Rightarrow> (r, w)
      | (Inl err, w) \<Rightarrow>
          (\<lparr>success = False, tweetsFound = 0, tweetsProcessed = 0, results = [],
            error_poll = Some (errorMessage err)\<rparr>, w))"

section \<open>Observations\<close>

text \<open>What has been stored: the ids in the table, and the rows with a given id.\<close>

definition stored_ids :: "world \<Rightarrow> string list" where
  "stored_ids w = map id_row (tweets_processed w)"

definition records_for :: "string \<Rightarrow> world \<Rightarrow> TweetRecord list" where
  "records_for i w = filter (\<lambda>r. id_row r = i) (tweets_processed w)"

text \<open>Kinds of events in a trace.\<close>

fun is_db_query :: "event \<Rightarrow> bool" where
  "is_db_query (DbQuery q r) = True"
| "is_db_query e = False"

fun is_alert :: "event \<Rightarrow> bool" where
  "is_alert (DiscordAlert t b r) = True"
| "is_alert e = False"

fun is_send :: "event \<Rightarrow> bool" where
  "is_send (TelegramSend t r) = True"
| "is_send (DiscordSend t r) = True"
| "is_send e = False"

fun is_insert :: "event \<Rightarrow> bool" where
  "is_insert (DbQuery (InsertProcessed i p) r) = True"
| "is_insert e = False"

text \<open>
  The per-post query \<^verbatim>\<open>SELECT 1 FROM tweets_processed WHERE id = $1 LIMIT 1\<close> of
  \<^verbatim>\<open>TweetRepository.exists\<close>. A list of events is \<open>rechecked\<close> when every sink call in it
  belongs to a dispatch that began with that query: a Telegram call stands directly behind
  the query for its post's id, answered with no row, and a Discord call stands directly
  behind that Telegram call, for the same post.
\<close>

fun is_exists_query :: "event \<Rightarrow> bool" where
  "is_exists_query (DbQuery (SelectExists i) r) = True"
| "is_exists_query e = False"

fun rechecked :: "event list \<Rightarrow> bool" where
  "rechecked [] = True"
| "rechecked (TelegramSend t x # es) = False"
| "rechecked (DiscordSend t x # es) = False"
| "rechecked (DbQuery (SelectExists i) (Inr []) # TelegramSend t x # DiscordSend t' y # es) =
     (i = id_tw t \<and> t' = t \<and> rechecked es)"
| "rechecked (DbQuery (SelectExists i) (Inr []) # TelegramSend t x # es) =
     (i = id_tw t \<and> rechecked es)"
| "rechecked (e # es) = rechecked es"

text \<open>The events an operation has added, given the world before it and the world after.\<close>

definition new_events :: "world \<Rightarrow> world \<Rightarrow> event list" where
  "new_events w w' = drop (length (trace w)) (trace w')"

text \<open>
  For one post: a sink call that returned true; the insert of its id; that insert thrown
  with a given exception; that insert answered by the database.
\<close>

fun reports_success :: "ParsedTweet \<Rightarrow> event \<Rightarrow> bool" where
  "reports_success t (TelegramSend t' r) = (t' = t \<and> r = Inr True)"
| "reports_success t (DiscordSend t' r) = (t' = t \<and> r = Inr True)"
| "reports_success t e = False"

fun is_mark_of :: "ParsedTweet \<Rightarrow> event \<Rightarrow> bool" where
  "is_mark_of t (DbQuery (InsertProcessed i p) r) = (i = id_tw t \<and> p = publishedAt t)"
| "is_mark_of t e = False"

fun mark_failed_with :: "ParsedTweet \<Rightarrow> thrown \<Rightarrow> event \<Rightarrow> bool" where
  "mark_failed_with t err (DbQuery (InsertProcessed i p) (Inl e)) =
     (i = id_tw t \<and> p = publishedAt t \<and> e = err)"
| "mark_failed_with t err e = False"

fun mark_returned :: "ParsedTweet \<Rightarrow> event \<Rightarrow> bool" where
  "mark_returned t (DbQuery (InsertProcessed i p) (Inr rs)) = (i = id_tw t \<and> p = publishedAt t)"
| "mark_returned t e = False"

text \<open>The posts handed to Telegram, in order: every dispatch starts with that call.\<close>

fun telegram_sent :: "event list \<Rightarrow> ParsedTweet list" where
  "telegram_sent [] = []"
| "telegram_sent (TelegramSend t r # es) = t # telegram_sent es"
| "telegram_sent (e # es) = telegram_sent es"

text \<open>
  The statements that only read, and an operation that has neither called a sink nor
  written to the store.
\<close>

fun is_read :: "sql \<Rightarrow> bool" where
  "is_read (SelectExists i) = True"
| "is_read (SelectIdIn is) = True"
| "is_read (InsertProcessed i p) = False"

definition untouched :: "world \<Rightarrow> world \<Rightarrow> bool" where
  "untouched w w' =
     (tweets_processed w' = tweets_processed w \<and>
      filter is_send (new_events w w') = [] \<and> filter is_insert (new_events w w') = [])"

text \<open>The number of calls of \<^verbatim>\<open>discordClient.sendAlert\<close> so far.\<close>

definition alert_calls :: "world \<Rightarrow> nat" where
  "alert_calls w = length (filter is_alert (trace w))"

text \<open>
  A cycle has failed when an exception left the try block of \<^verbatim>\<open>process\<close>;
  \<open>after_cycle\<close> is what one call of \<^verbatim>\<open>process\<close> leaves behind: the service fields and
  the world.
\<close>

definition cycle_failed :: "env \<Rightarrow> SocialRelayService \<Rightarrow> world \<Rightarrow> bool" where
  "cycle_failed env svc w = (fst (process_try env svc w) \<noteq> None)"

definition after_cycle :: "env \<Rightarrow> SocialRelayService \<times> world \<Rightarrow> SocialRelayService \<times> world" where
  "after_cycle env sw = snd (process env (fst sw) (snd sw))"

section \<open>Example inputs\<close>

text \<open>
  A feed item whose link is taken as the tweet id and whose date is looked up in a small
  table, a set of collaborators that all work, and the empty store.
\<close>

definition example_item :: "string \<Rightarrow> string \<Rightarrow> RSSItem" where
  "example_item l d = \<lparr>title = ''post'', link = l, pubDate = d, description = None, guid = None\<rparr>"

definition example_feed :: "RSSItem list \<Rightarrow> RSSFeed" where
  "example_feed xs = \<lparr>items = xs, feedTitle = None, feedDescription = None, lastBuildDate = None\<rparr>"

definition example_env :: "RSSFeed \<Rightarrow> env" where
  "example_env feed =
     \<lparr>fetchRSS = (\<lambda>tr. Inr ''<rss/>''),
      parse = (\<lambda>xml. Inr feed),
      extractTweetId = (\<lambda>l. Some l),
      parseDate = map_of [(''d050'', 50), (''d100'', 100), (''d200'', 200), (''d300'', 300)],
      cleanTweetText = (\<lambda>s. s),
      isRetweet = (\<lambda>s. False),
      isReply = (\<lambda>s. False),
      convertToTwitterLink = (\<lambda>l. l),
      telegram_sendTweet = (\<lambda>tr t. Inr True),
      discord_sendTweet = (\<lambda>tr t. Inr True),
      discord_sendAlert = (\<lambda>tr t b. Inr True),
      db_error = (\<lambda>tr q. None),
      now = (\<lambda>tr. 0)\<rparr>"

definition example_tweet :: "string \<Rightarrow> int \<Rightarrow> ParsedTweet" where
  "example_tweet i t = \<lparr>id_tw = i, text_tw = ''post'', link_tw = i, publishedAt = t\<rparr>"

definition empty_world :: world where
  "empty_world = \<lparr>tweets_processed = [], trace = []\<rparr>"

text \<open>The service as constructed, and collaborators with the feed and the alert channel down.\<close>

definition initial_service :: SocialRelayService where
  "initial_service = \<lparr>consecutiveFailures = 0, alertSent = False\<rparr>"

definition example_env_down :: env where
  "example_env_down = (example_env (example_feed []))
     \<lparr>fetchRSS := (\<lambda>tr. Inl (Error ''connect ECONNREFUSED'')),
      discord_sendAlert := (\<lambda>tr t b. Inl (Error ''Missing Access''))\<rparr>"

text \<open>
  Discord returning false; both sinks returning false; a database that answers the
  per-post existence check and throws on every other statement.
\<close>

definition example_env_discord_down :: env where
  "example_env_discord_down =
     (example_env (example_feed []))\<lparr>discord_sendTweet := (\<lambda>tr t. Inr False)\<rparr>"

definition example_env_sinks_down :: "RSSFeed \<Rightarrow> env" where
  "example_env_sinks_down feed =
     (example_env feed)\<lparr>telegram_sendTweet := (\<lambda>tr t. Inr False),
                          discord_sendTweet := (\<lambda>tr t. Inr False)\<rparr>"

definition example_env_db_down :: "RSSFeed \<Rightarrow> env" where
  "example_env_db_down feed =
     (example_env feed)
       \<lparr>db_error := (\<lambda>tr q. case q of SelectExists i \<Rightarrow> None
                                   | _ \<Rightarrow> Some (Error ''Connection terminated''))\<rparr>"

text \<open>Stored rows, a world with a given table, and the feeds used below.\<close>

definition example_row :: "string \<Rightarrow> int \<Rightarrow> TweetRecord" where
  "example_row i p = \<lparr>id_row = i, published_at = p, created_at = 0\<rparr>"

definition example_world :: "TweetRecord list \<Rightarrow> world" where
  "example_world rows = \<lparr>tweets_processed = rows, trace = []\<rparr>"

definition example_feed_2 :: RSSFeed where
  "example_feed_2 = example_feed [example_item ''2'' ''d200'', example_item ''1'' ''d100'']"

definition example_feed_1 :: RSSFeed where
  "example_feed_1 = example_feed [example_item ''1'' ''d100'']"

definition example_feed_dup :: RSSFeed where
  "example_feed_dup =
     example_feed [example_item ''2'' ''d200'', example_item ''2'' ''d200'', example_item ''1'' ''d100'']"

definition example_feed_3 :: RSSFeed where
  "example_feed_3 =
     example_feed [example_item ''t3'' ''d300'', example_item ''t1'' ''d200'',
                   example_item ''t2'' ''d100'', example_item ''t0'' ''d050'']"

text \<open>The equations that evaluate a cycle on the example inputs.\<close>

lemmas eval_defs =
  process_def process_try_def poll_def poll_try_def processSingleTweet_def processTweet_def
  countTelegram_def countDiscord_def
  selectNewTweets_def toTweets_def rssItemToTweet_def
  filterExisting_def markAsProcessed_def exists_tw_def query_def emit_def
  emptyResult_def resetFailures_def FAILURE_THRESHOLD_def sendNitterFailureAlert_def
  example_env_def example_feed_def example_item_def example_tweet_def empty_world_def Let_def

section \<open>Properties of the repository\<close>

text \<open>
  C10. \<^verbatim>\<open>filterExisting\<close> on an empty list of ids returns the empty set and leaves the
  world as it was, trace included: no statement is sent to the database, whatever the
  store holds and whether or not the database would answer.
\<close>

theorem filterExisting_empty_no_query:
  "filterExisting env [] w = (Inr {}, w)"
  by (simp add: filterExisting_def)

text \<open>
  C9. Starting from a store without the id, and with the database answering both times,
  the first \<^verbatim>\<open>markAsProcessed\<close> returns true and the second returns false; afterwards the
  store holds exactly one record for the id, and the second call has left the table as
  the first one made it.
\<close>

theorem markAsProcessed_twice:
  "i \<notin> set (stored_ids w) \<Longrightarrow>
   db_error env (trace w) (InsertProcessed i p) = None \<Longrightarrow>
   db_error env (trace (snd (markAsProcessed env i p w))) (InsertProcessed i p') = None \<Longrightarrow>
   (let (r1, w1) = markAsProcessed env i p w;
        (r2, w2) = markAsProcessed env i p' w1
    in r1 = Inr True \<and> r2 = Inr False \<and>
       length (records_for i w2) = 1 \<and>
       tweets_processed w2 = tweets_processed w1 \<and>
       tweets_processed w1 =
         tweets_processed w @ [\<lparr>id_row = i, published_at = p, created_at = now env (trace w)\<rparr>])"
  by (auto simp add: markAsProcessed_def query_def emit_def stored_ids_def records_for_def Let_def
      filter_empty_conv split: prod.splits)

theorem markAsProcessed_twice_witness:
  "''7'' \<notin> set (stored_ids empty_world) \<and>
   db_error (example_env (example_feed [])) (trace empty_world) (InsertProcessed ''7'' 100) = None \<and>
   fst (markAsProcessed (example_env (example_feed [])) ''7'' 100 empty_world) = Inr True \<and>
   fst (markAsProcessed (example_env (example_feed [])) ''7'' 100
          (snd (markAsProcessed (example_env (example_feed [])) ''7'' 100 empty_world))) = Inr False \<and>
   length (records_for ''7''
     (snd (markAsProcessed (example_env (example_feed [])) ''7'' 100
          (snd (markAsProcessed (example_env (example_feed [])) ''7'' 100 empty_world))))) = 1"
  using markAsProcessed_twice [of "''7''" empty_world "example_env (example_feed [])" 100 100]
  by (simp add: eval_defs stored_ids_def split: prod.splits)

section \<open>The example inputs, evaluated\<close>

lemma toTweets_example_feed_2:
  "toTweets (example_env example_feed_2) example_feed_2 =
     [example_tweet ''1'' 100, example_tweet ''2'' 200]"
  by (simp add: eval_defs example_feed_2_def)

lemma example_env_fields:
  "fetchRSS (example_env f) tr = Inr ''<rss/>''"
  "parse (example_env f) x = Inr f"
  "db_error (example_env f) tr q = None"
  "telegram_sendTweet (example_env f) tr t = Inr True"
  "discord_sendTweet (example_env f) tr t = Inr True"
  "now (example_env f) tr = 0"
  by (simp_all add: example_env_def)

lemma toTweets_example_feed_1:
  "toTweets (example_env_db_down f) example_feed_1 = [example_tweet ''1'' 100]"
  by (simp add: eval_defs example_env_db_down_def example_feed_1_def)

lemma toTweets_example_feed_dup:
  "toTweets (example_env f) example_feed_dup =
     [example_tweet ''1'' 100, example_tweet ''2'' 200, example_tweet ''2'' 200]"
  by (simp add: eval_defs example_feed_dup_def)

lemma toTweets_example_feed_3:
  "toTweets (example_env f) example_feed_3 =
     [example_tweet ''t0'' 50, example_tweet ''t2'' 100, example_tweet ''t1'' 200,
      example_tweet ''t3'' 300]"
  by (simp add: eval_defs example_feed_3_def)

section \<open>What each operation adds to the trace\<close>

lemma trace_emit [simp]: "trace (emit e w) = trace w @ [e]"
  by (simp add: emit_def)

lemma tweets_processed_emit [simp]: "tweets_processed (emit e w) = tweets_processed w"
  by (simp add: emit_def)

lemma query_trace:
  "query env q w = (r, w') \<Longrightarrow> trace w' = trace w @ [DbQuery q r]"
  by (auto simp add: query_def Let_def split: option.splits prod.splits)

lemma markAsProcessed_trace:
  "markAsProcessed env i p w = (r, w') \<Longrightarrow>
   \<exists>res. trace w' = trace w @ [DbQuery (InsertProcessed i p) res] \<and> isl res = isl r"
  by (auto simp add: markAsProcessed_def split: prod.splits sum.splits dest: query_trace)

lemma filterExisting_trace:
  "filterExisting env ids w = (r, w') \<Longrightarrow>
   \<exists>res. trace w' = trace w @ (if ids = [] then [] else [DbQuery (SelectIdIn ids) res])"
  by (auto simp add: filterExisting_def split: prod.splits sum.splits if_splits dest: query_trace)

lemma selectNewTweets_trace:
  "selectNewTweets env ts w = (r, w') \<Longrightarrow>
   \<exists>res. trace w' = trace w @ (if ts = [] then [] else [DbQuery (SelectIdIn (map id_tw ts)) res])"
  by (auto simp add: selectNewTweets_def Let_def split: prod.splits sum.splits
      dest: filterExisting_trace)

lemma markOlder_trace:
  "markOlder env ts w = (r, w') \<Longrightarrow> \<exists>evs. trace w' = trace w @ evs \<and> list_all is_insert evs"
proof (induction ts arbitrary: w)
  case Nil
  then show ?case by simp
next
  case (Cons t ts)
  obtain r1 w1 where m: "markAsProcessed env (id_tw t) (publishedAt t) w = (r1, w1)"
    by (cases "markAsProcessed env (id_tw t) (publishedAt t) w")
  from markAsProcessed_trace [OF m] obtain res where
    t1: "trace w1 = trace w @ [DbQuery (InsertProcessed (id_tw t) (publishedAt t)) res]"
    by blast
  show ?case
  proof (cases r1)
    case (Inl e)
    with Cons.prems m t1 show ?thesis by auto
  next
    case (Inr b)
    with Cons.prems m have "markOlder env ts w1 = (r, w')" by simp
    from Cons.IH [OF this] obtain evs where "trace w' = trace w1 @ evs" "list_all is_insert evs"
      by blast
    with t1 show ?thesis by auto
  qed
qed

lemma inserts_no_alert: "list_all is_insert evs \<Longrightarrow> filter is_alert evs = []"
  by (induction evs) (auto elim: is_insert.elims)

lemma inserts_no_send: "list_all is_insert evs \<Longrightarrow> filter is_send evs = []"
  by (induction evs) (auto elim: is_insert.elims)

text \<open>
  When an exception leaves the try block of \<^verbatim>\<open>process\<close>, the service fields are
  untouched and the block has called neither a sink nor the alert channel.
\<close>

lemma process_try_failed:
  assumes "process_try env svc w = (Some e, r, svc', w')"
  shows "svc' = svc \<and> filter is_alert (trace w') = filter is_alert (trace w)
         \<and> filter is_send (trace w') = filter is_send (trace w)"
  using assms
  by (auto simp add: process_try_def Let_def
      split: sum.splits prod.splits if_splits option.splits
      dest!: selectNewTweets_trace markOlder_trace dest: inserts_no_alert inserts_no_send)

section \<open>The failure streak\<close>

lemma process_failed_cycle:
  assumes "cycle_failed env svc w"
  shows "consecutiveFailures (fst (after_cycle env (svc, w))) = consecutiveFailures svc + 1 \<and>
         alertSent (fst (after_cycle env (svc, w))) =
           (alertSent svc \<or> consecutiveFailures svc + 1 \<ge> FAILURE_THRESHOLD) \<and>
         alert_calls (snd (after_cycle env (svc, w))) =
           alert_calls w +
             (if consecutiveFailures svc + 1 \<ge> FAILURE_THRESHOLD \<and> \<not> alertSent svc then 1 else 0)"
proof -
  obtain e r svc' w' where processTweet_policy: "process_try env svc w = (Some e, r, svc', w')"
    using assms by (cases "process_try env svc w") (auto simp add: cycle_failed_def)
  from process_try_failed [OF processTweet_policy] have
    s: "svc' = svc" and a: "filter is_alert (trace w') = filter is_alert (trace w)"
    by simp_all
  show ?thesis
    using processTweet_policy s a
    by (auto simp add: after_cycle_def process_def Let_def alert_calls_def
        sendNitterFailureAlert_def)
qed

lemma example_env_down_fails:
  "process_try example_env_down svc w =
     (Some (Error ''connect ECONNREFUSED''), emptyResult, svc,
      emit (FetchRSS (Inl (Error ''connect ECONNREFUSED''))) w)"
  by (simp add: process_try_def example_env_down_def example_env_def Let_def)

text \<open>
  C3. From a streak of zero with no alert sent, and a threshold of three: after two failed
  cycles no alert has been sent; the third failed cycle calls \<^verbatim>\<open>sendAlert\<close> exactly once
  and sets \<^verbatim>\<open>alertSent\<close>; a fourth failed cycle calls it no more. This holds for every
  behaviour of the collaborators, so also when \<^verbatim>\<open>sendAlert\<close> itself throws or returns
  false: \<^verbatim>\<open>alertSent\<close> is true after the third cycle all the same.
\<close>

theorem failure_streak_alerting:
  assumes "consecutiveFailures s0 = 0" and "\<not> alertSent s0"
    and "cycle_failed env s0 w0"
    and "sw1 = after_cycle env (s0, w0)" and "cycle_failed env (fst sw1) (snd sw1)"
    and "sw2 = after_cycle env sw1" and "cycle_failed env (fst sw2) (snd sw2)"
    and "sw3 = after_cycle env sw2" and "cycle_failed env (fst sw3) (snd sw3)"
    and "sw4 = after_cycle env sw3"
  shows "alert_calls (snd sw2) = alert_calls w0 \<and>
         alert_calls (snd sw3) = alert_calls w0 + 1 \<and>
         consecutiveFailures (fst sw3) = 3 \<and> alertSent (fst sw3) \<and>
         alert_calls (snd sw4) = alert_calls (snd sw3) \<and>
         consecutiveFailures (fst sw4) = 4 \<and> alertSent (fst sw4)"
proof -
  have c1: "consecutiveFailures (fst sw1) = 1 \<and> \<not> alertSent (fst sw1) \<and>
            alert_calls (snd sw1) = alert_calls w0"
    using process_failed_cycle [OF assms(3)] assms(1,2,4)
    by (simp add: FAILURE_THRESHOLD_def)
  have c2: "consecutiveFailures (fst sw2) = 2 \<and> \<not> alertSent (fst sw2) \<and>
            alert_calls (snd sw2) = alert_calls w0"
    using process_failed_cycle [of env "fst sw1" "snd sw1"] assms(5,6) c1
    by (simp add: FAILURE_THRESHOLD_def)
  have c3: "consecutiveFailures (fst sw3) = 3 \<and> alertSent (fst sw3) \<and>
            alert_calls (snd sw3) = alert_calls w0 + 1"
    using process_failed_cycle [of env "fst sw2" "snd sw2"] assms(7,8) c2
    by (simp add: FAILURE_THRESHOLD_def)
  have c4: "consecutiveFailures (fst sw4) = 4 \<and> alertSent (fst sw4) \<and>
            alert_calls (snd sw4) = alert_calls (snd sw3)"
    using process_failed_cycle [of env "fst sw3" "snd sw3"] assms(9,10) c3
    by (simp add: FAILURE_THRESHOLD_def)
  from c2 c3 c4 show ?thesis by simp
qed

theorem failure_streak_alerting_witness:
  "consecutiveFailures initial_service = 0 \<and> \<not> alertSent initial_service \<and>
   cycle_failed example_env_down initial_service empty_world \<and>
   alert_calls (snd (after_cycle example_env_down (after_cycle example_env_down
     (initial_service, empty_world)))) = 0 \<and>
   alert_calls (snd (after_cycle example_env_down (after_cycle example_env_down
     (after_cycle example_env_down (initial_service, empty_world))))) = 1 \<and>
   alertSent (fst (after_cycle example_env_down (after_cycle example_env_down
     (after_cycle example_env_down (initial_service, empty_world))))) \<and>
   alert_calls (snd (after_cycle example_env_down (after_cycle example_env_down
     (after_cycle example_env_down (after_cycle example_env_down
       (initial_service, empty_world)))))) = 1"
  using failure_streak_alerting [of initial_service example_env_down empty_world
      "after_cycle example_env_down (initial_service, empty_world)"
      "after_cycle example_env_down (after_cycle example_env_down (initial_service, empty_world))"
      "after_cycle example_env_down (after_cycle example_env_down
         (after_cycle example_env_down (initial_service, empty_world)))"
      "after_cycle example_env_down (after_cycle example_env_down
         (after_cycle example_env_down (after_cycle example_env_down
           (initial_service, empty_world))))"]
  by (simp add: cycle_failed_def example_env_down_fails initial_service_def alert_calls_def
      empty_world_def)

section \<open>Deduplication\<close>

lemma filterExisting_returned:
  assumes "db_error env (trace w) (SelectIdIn ids) = None"
  shows "filterExisting env ids w =
           (Inr (set (stored_ids w) \<inter> set ids),
            if ids = [] then w
            else emit (DbQuery (SelectIdIn ids)
                   (Inr (map id_row (filter (\<lambda>r. id_row r \<in> set ids) (tweets_processed w))))) w)"
  using assms
  by (auto simp add: filterExisting_def query_def Let_def stored_ids_def emit_def)

lemma selectNewTweets_returned:
  assumes "db_error env (trace w) (SelectIdIn (map id_tw cands)) = None"
  shows "selectNewTweets env cands w =
           (Inr (set (stored_ids w) \<inter> set (map id_tw cands),
                 filter (\<lambda>t. id_tw t \<notin> set (stored_ids w)) cands),
            if cands = [] then w
            else emit (DbQuery (SelectIdIn (map id_tw cands))
                   (Inr (map id_row (filter (\<lambda>r. id_row r \<in> set (map id_tw cands))
                      (tweets_processed w))))) w)"
proof -
  have "filter (\<lambda>t. id_tw t \<notin> set (stored_ids w) \<inter> set (map id_tw cands)) cands =
        filter (\<lambda>t. id_tw t \<notin> set (stored_ids w)) cands"
    by (rule filter_cong) auto
  then show ?thesis
    using filterExisting_returned [OF assms]
    by (simp add: selectNewTweets_def Let_def)
qed

text \<open>
  C6. When the bulk query is answered, the posts selected as new are exactly the candidates
  whose id is not in the set \<^verbatim>\<open>filterExisting\<close> returned, which is the set of stored ids
  among the candidates' ids; at most one statement goes to the database for it, and the
  table is not changed. When every candidate is already stored, \<^verbatim>\<open>process\<close> returns the
  fetched count with zero new posts and no errors, and \<^verbatim>\<open>poll\<close> returns
  \<^verbatim>\<open>success = true\<close> with the fetched count and nothing processed.
\<close>

theorem dedup_exact:
  assumes "db_error env (trace w) (SelectIdIn (map id_tw cands)) = None"
  shows "(let (r, w') = selectNewTweets env cands w;
              existing = set (stored_ids w) \<inter> set (map id_tw cands);
              new = filter (\<lambda>t. id_tw t \<notin> existing) cands
          in r = Inr (existing, new) \<and>
             fst (filterExisting env (map id_tw cands) w) = Inr existing \<and>
             set new = {t \<in> set cands. id_tw t \<notin> set (stored_ids w)} \<and>
             tweets_processed w' = tweets_processed w \<and>
             length (filter is_db_query (new_events w w')) = (if cands = [] then 0 else 1)) \<and>
         (fetchRSS env (trace w0) = Inr xml \<and> parse env xml = Inr feed \<and>
          cands = toTweets env feed \<and> w = emit (FetchRSS (Inr xml)) w0 \<and>
          set (map id_tw cands) \<subseteq> set (stored_ids w) \<longrightarrow>
            fst (process env svc w0) = emptyResult\<lparr>totalFetched := length cands\<rparr> \<and>
            fst (poll env w0) = \<lparr>success = True, tweetsFound = length cands, tweetsProcessed = 0,
                                  results = [], error_poll = None\<rparr>)"
proof -
  have f: "filter (\<lambda>t. id_tw t \<notin> set (stored_ids w) \<inter> set (map id_tw cands)) cands =
        filter (\<lambda>t. id_tw t \<notin> set (stored_ids w)) cands"
    by (rule filter_cong) auto
  have p1: "(let (r, w') = selectNewTweets env cands w;
              existing = set (stored_ids w) \<inter> set (map id_tw cands);
              new = filter (\<lambda>t. id_tw t \<notin> existing) cands
          in r = Inr (existing, new) \<and>
             fst (filterExisting env (map id_tw cands) w) = Inr existing \<and>
             set new = {t \<in> set cands. id_tw t \<notin> set (stored_ids w)} \<and>
             tweets_processed w' = tweets_processed w \<and>
             length (filter is_db_query (new_events w w')) = (if cands = [] then 0 else 1))"
    using f by (auto simp add: selectNewTweets_returned [OF assms] filterExisting_returned [OF assms]
        Let_def new_events_def)
  have p2: "fst (process env svc w0) = emptyResult\<lparr>totalFetched := length cands\<rparr> \<and>
            fst (poll env w0) = \<lparr>success = True, tweetsFound = length cands, tweetsProcessed = 0,
                                  results = [], error_poll = None\<rparr>"
    if h: "fetchRSS env (trace w0) = Inr xml" "parse env xml = Inr feed"
          "cands = toTweets env feed" "w = emit (FetchRSS (Inr xml)) w0"
          "set (map id_tw cands) \<subseteq> set (stored_ids w)"
  proof -
    have e: "filter (\<lambda>t. id_tw t \<notin> set (stored_ids w)) cands = []"
      using h(5) by (auto simp add: filter_empty_conv)
    show ?thesis
      using h(1,2) h(3) [symmetric] h(4) [symmetric] e selectNewTweets_returned [OF assms]
      by (simp add: process_def process_try_def poll_def poll_try_def Let_def emptyResult_def)
  qed
  from p1 p2 show ?thesis by blast
qed

theorem dedup_exact_witness:
  "db_error (example_env example_feed_2) (trace (example_world [example_row ''1'' 100]))
     (SelectIdIn (map id_tw [example_tweet ''1'' 100, example_tweet ''2'' 200])) = None \<and>
   fst (selectNewTweets (example_env example_feed_2) [example_tweet ''1'' 100, example_tweet ''2'' 200]
          (example_world [example_row ''1'' 100])) =
     Inr ({''1''}, [example_tweet ''2'' 200]) \<and>
   set (map id_tw (toTweets (example_env example_feed_2) example_feed_2)) \<subseteq>
     set (stored_ids (example_world [example_row ''1'' 100, example_row ''2'' 200])) \<and>
   fst (process (example_env example_feed_2) initial_service
          (example_world [example_row ''1'' 100, example_row ''2'' 200])) =
     emptyResult\<lparr>totalFetched := 2\<rparr> \<and>
   fst (poll (example_env example_feed_2)
          (example_world [example_row ''1'' 100, example_row ''2'' 200])) =
     \<lparr>success = True, tweetsFound = 2, tweetsProcessed = 0, results = [], error_poll = None\<rparr>"
proof -
  let ?E = "example_env example_feed_2"
  let ?C = "[example_tweet ''1'' 100, example_tweet ''2'' 200]"
  let ?W1 = "example_world [example_row ''1'' 100]"
  let ?W2 = "example_world [example_row ''1'' 100, example_row ''2'' 200]"
  have h1: "db_error ?E (trace ?W1) (SelectIdIn (map id_tw ?C)) = None"
    by (simp add: example_env_fields)
  have p1: "fst (selectNewTweets ?E ?C ?W1) = Inr ({''1''}, [example_tweet ''2'' 200])"
    using dedup_exact [OF h1]
    by (simp add: Let_def stored_ids_def example_world_def example_row_def example_tweet_def
        split: prod.splits)
  have h2: "db_error ?E (trace (emit (FetchRSS (Inr ''<rss/>'')) ?W2)) (SelectIdIn (map id_tw ?C)) = None"
    by (simp add: example_env_fields)
  have s2: "set (map id_tw (toTweets ?E example_feed_2)) \<subseteq> set (stored_ids ?W2)"
    by (simp add: toTweets_example_feed_2 stored_ids_def example_world_def example_row_def
        example_tweet_def)
  have p2: "fst (process ?E initial_service ?W2) = emptyResult\<lparr>totalFetched := 2\<rparr> \<and>
            fst (poll ?E ?W2) =
              \<lparr>success = True, tweetsFound = 2, tweetsProcessed = 0, results = [], error_poll = None\<rparr>"
    using dedup_exact [OF h2, where ?w0.0 = ?W2 and xml = "''<rss/>''" and feed = example_feed_2
        and svc = initial_service] s2
    by (simp add: toTweets_example_feed_2 example_env_fields stored_ids_def)
  from h1 p1 s2 p2 show ?thesis by simp
qed

section \<open>One post: sends and the store write\<close>

lemma new_events_append [simp]: "trace w' = trace w @ evs \<Longrightarrow> new_events w w' = evs"
  by (simp add: new_events_def)

lemma markAsProcessed_cases:
  "markAsProcessed env i p w = (r, w') \<Longrightarrow>
     (\<exists>e. r = Inl e \<and> db_error env (trace w) (InsertProcessed i p) = Some e \<and>
          trace w' = trace w @ [DbQuery (InsertProcessed i p) (Inl e)] \<and>
          tweets_processed w' = tweets_processed w) \<or>
     (\<exists>rs. db_error env (trace w) (InsertProcessed i p) = None \<and>
          trace w' = trace w @ [DbQuery (InsertProcessed i p) (Inr rs)] \<and>
          i \<in> set (map id_row (tweets_processed w')) \<and>
          r = Inr (i \<notin> set (map id_row (tweets_processed w))) \<and>
          tweets_processed w' =
            (if i \<in> set (map id_row (tweets_processed w)) then tweets_processed w
             else tweets_processed w @
               [\<lparr>id_row = i, published_at = p, created_at = now env (trace w)\<rparr>]))"
  by (auto simp add: markAsProcessed_def query_def Let_def split: option.splits if_splits)

lemma processSingleTweet_both_failed:
  assumes "telegram_sendTweet env (trace w) t = tg" and "tg \<noteq> Inr True"
    and "discord_sendTweet env (trace w @ [TelegramSend t tg]) t = dc" and "dc \<noteq> Inr True"
  shows "processSingleTweet env t (res, w) =
           (countDiscord t dc (countTelegram t tg res),
            w\<lparr>trace := trace w @ [TelegramSend t tg, DiscordSend t dc, Sleep 1000]\<rparr>)"
  using assms by (simp add: processSingleTweet_def Let_def emit_def)

lemma processSingleTweet_sent:
  assumes "telegram_sendTweet env (trace w) t = tg"
    and "discord_sendTweet env (trace w @ [TelegramSend t tg]) t = dc"
    and "tg = Inr True \<or> dc = Inr True"
    and "markAsProcessed env (id_tw t) (publishedAt t)
           (w\<lparr>trace := trace w @ [TelegramSend t tg, DiscordSend t dc]\<rparr>) = (r, w3)"
  shows "processSingleTweet env t (res, w) =
           ((case r of Inr b \<Rightarrow> countDiscord t dc (countTelegram t tg res)
             | Inl err \<Rightarrow> (countDiscord t dc (countTelegram t tg res))
                 \<lparr>errors := errors (countDiscord t dc (countTelegram t tg res)) @
                    [''DB error for tweet '' @ id_tw t @ '': '' @ errorMessage err]\<rparr>),
            emit (Sleep 1000) w3)"
  using assms by (auto simp add: processSingleTweet_def Let_def emit_def split: sum.splits)

lemma processSingleTweet_policy:
  "(let (res', w') = processSingleTweet env t (res, w); evs = new_events w w' in
      list_ex (is_mark_of t) evs = list_ex (reports_success t) evs \<and>
      (\<not> list_ex (reports_success t) evs \<longrightarrow> tweets_processed w' = tweets_processed w) \<and>
      (\<forall>err. list_ex (mark_failed_with t err) evs \<longrightarrow>
         list_ex (reports_success t) evs \<and> tweets_processed w' = tweets_processed w \<and>
         errors res' = errors (countDiscord t (discord_sendTweet env (trace w @ [TelegramSend t (telegram_sendTweet env (trace w) t)]) t)
                                 (countTelegram t (telegram_sendTweet env (trace w) t) res)) @
            [''DB error for tweet '' @ id_tw t @ '': '' @ errorMessage err]))"
proof -
  define tg where "tg = telegram_sendTweet env (trace w) t"
  define dc where "dc = discord_sendTweet env (trace w @ [TelegramSend t tg]) t"
  define w2 where "w2 = w\<lparr>trace := trace w @ [TelegramSend t tg, DiscordSend t dc]\<rparr>"
  show ?thesis
  proof (cases "tg = Inr True \<or> dc = Inr True")
    case False
    then show ?thesis
      using processSingleTweet_both_failed [of env w t tg dc res]
      by (simp add: tg_def [symmetric] dc_def [symmetric])
  next
    case True
    obtain r w3 where m: "markAsProcessed env (id_tw t) (publishedAt t) w2 = (r, w3)"
      by (cases "markAsProcessed env (id_tw t) (publishedAt t) w2")
    have p: "processSingleTweet env t (res, w) =
           ((case r of Inr b \<Rightarrow> countDiscord t dc (countTelegram t tg res)
             | Inl err \<Rightarrow> (countDiscord t dc (countTelegram t tg res))
                 \<lparr>errors := errors (countDiscord t dc (countTelegram t tg res)) @
                    [''DB error for tweet '' @ id_tw t @ '': '' @ errorMessage err]\<rparr>),
            emit (Sleep 1000) w3)"
      using processSingleTweet_sent [of env w t tg dc r w3 res] True m
      by (simp add: tg_def dc_def w2_def)
    from markAsProcessed_cases [OF m] show ?thesis
      using True p
      by (auto simp add: tg_def [symmetric] dc_def [symmetric] w2_def)
  qed
qed

lemma exists_tw_cases:
  "exists_tw env i w = (r, w') \<Longrightarrow>
     tweets_processed w' = tweets_processed w \<and>
     (\<exists>res. trace w' = trace w @ [DbQuery (SelectExists i) res]) \<and>
     (\<forall>b. r = Inr b \<longrightarrow> b = (i \<in> set (stored_ids w)))"
  by (auto simp add: exists_tw_def query_def Let_def stored_ids_def filter_empty_conv
      split: option.splits if_splits)

lemma processTweet_exists_thrown:
  "exists_tw env (id_tw t) w = (Inl e, w1) \<Longrightarrow> processTweet env t w = (Inl e, w1)"
  by (simp add: processTweet_def)

lemma processTweet_skipped:
  "exists_tw env (id_tw t) w = (Inr True, w1) \<Longrightarrow>
   processTweet env t w =
     (Inr \<lparr>tweetId = id_tw t, telegram = False, discord = False, dbSaved = False,
           skipped = True, error_tw = None\<rparr>, w1)"
  by (simp add: processTweet_def)

lemma processTweet_telegram_thrown:
  "exists_tw env (id_tw t) w = (Inr False, w1) \<Longrightarrow>
   telegram_sendTweet env (trace w1) t = Inl e \<Longrightarrow>
   processTweet env t w = (Inl e, emit (TelegramSend t (Inl e)) w1)"
  by (simp add: processTweet_def Let_def)

lemma processTweet_discord_thrown:
  "exists_tw env (id_tw t) w = (Inr False, w1) \<Longrightarrow>
   telegram_sendTweet env (trace w1) t = Inr a \<Longrightarrow>
   discord_sendTweet env (trace w1 @ [TelegramSend t (Inr a)]) t = Inl e \<Longrightarrow>
   processTweet env t w =
     (Inl e, emit (DiscordSend t (Inl e)) (emit (TelegramSend t (Inr a)) w1))"
  by (simp add: processTweet_def Let_def)

lemma processTweet_both_failed:
  "exists_tw env (id_tw t) w = (Inr False, w1) \<Longrightarrow>
   telegram_sendTweet env (trace w1) t = Inr False \<Longrightarrow>
   discord_sendTweet env (trace w1 @ [TelegramSend t (Inr False)]) t = Inr False \<Longrightarrow>
   processTweet env t w =
     (Inr \<lparr>tweetId = id_tw t, telegram = False, discord = False, dbSaved = False,
           skipped = False, error_tw = Some ''Both Telegram and Discord failed''\<rparr>,
      emit (DiscordSend t (Inr False)) (emit (TelegramSend t (Inr False)) w1))"
  by (simp add: processTweet_def Let_def)

lemma processTweet_sent:
  "exists_tw env (id_tw t) w = (Inr False, w1) \<Longrightarrow>
   telegram_sendTweet env (trace w1) t = Inr a \<Longrightarrow>
   discord_sendTweet env (trace w1 @ [TelegramSend t (Inr a)]) t = Inr b \<Longrightarrow>
   a \<or> b \<Longrightarrow>
   markAsProcessed env (id_tw t) (publishedAt t)
     (emit (DiscordSend t (Inr b)) (emit (TelegramSend t (Inr a)) w1)) = (r, w4) \<Longrightarrow>
   processTweet env t w =
     (Inr \<lparr>tweetId = id_tw t, telegram = a, discord = b, dbSaved = (r = Inr True),
           skipped = False, error_tw = None\<rparr>, w4)"
  by (cases r) (auto simp add: processTweet_def Let_def)

lemma processTweet_policy:
  "(let (r, w') = processTweet env t w; evs = new_events w w' in
      \<forall>out. r = Inr out \<longrightarrow>
        list_ex (is_mark_of t) evs = list_ex (reports_success t) evs \<and>
        (telegram out \<or> discord out) = list_ex (reports_success t) evs \<and>
        (\<not> list_ex (reports_success t) evs \<longrightarrow>
           tweets_processed w' = tweets_processed w \<and> \<not> dbSaved out) \<and>
        (\<forall>err. list_ex (mark_failed_with t err) evs \<longrightarrow>
           list_ex (reports_success t) evs \<and> tweets_processed w' = tweets_processed w \<and>
           \<not> dbSaved out))"
proof -
  obtain r1 w1 where e: "exists_tw env (id_tw t) w = (r1, w1)"
    by (cases "exists_tw env (id_tw t) w")
  from exists_tw_cases [OF e] obtain res where
    w1: "tweets_processed w1 = tweets_processed w"
        "trace w1 = trace w @ [DbQuery (SelectExists (id_tw t)) res]"
    by blast
  show ?thesis
  proof (cases r1)
    case (Inl err)
    with e show ?thesis by (simp add: processTweet_exists_thrown)
  next
    case (Inr ex)
    show ?thesis
    proof (cases ex)
      case True
      with Inr e w1 show ?thesis by (simp add: processTweet_skipped)
    next
      case False
      with Inr e have e': "exists_tw env (id_tw t) w = (Inr False, w1)" by simp
      show ?thesis
      proof (cases "telegram_sendTweet env (trace w1) t")
        case (Inl err)
        with e' show ?thesis by (simp add: processTweet_telegram_thrown)
      next
        case tg: (Inr a)
        show ?thesis
        proof (cases "discord_sendTweet env (trace w1 @ [TelegramSend t (Inr a)]) t")
          case (Inl err)
          with e' tg show ?thesis by (simp add: processTweet_discord_thrown)
        next
          case dc: (Inr b)
          show ?thesis
          proof (cases "a \<or> b")
            case False
            with e' tg dc w1 show ?thesis
              by (simp add: processTweet_both_failed)
          next
            case True
            obtain r w4 where m: "markAsProcessed env (id_tw t) (publishedAt t)
                (emit (DiscordSend t (Inr b)) (emit (TelegramSend t (Inr a)) w1)) = (r, w4)"
              by (cases "markAsProcessed env (id_tw t) (publishedAt t)
                (emit (DiscordSend t (Inr b)) (emit (TelegramSend t (Inr a)) w1))")
            from markAsProcessed_cases [OF m] show ?thesis
              using True w1 by (auto simp add: processTweet_sent [OF e' tg dc True m])
          qed
        qed
      qed
    qed
  qed
qed

lemma processSingleTweet_stored:
  "(let (res', w') = processSingleTweet env t (res, w); evs = new_events w w' in
      list_ex (mark_returned t) evs \<longrightarrow> id_tw t \<in> set (stored_ids w'))"
proof -
  define tg where "tg = telegram_sendTweet env (trace w) t"
  define dc where "dc = discord_sendTweet env (trace w @ [TelegramSend t tg]) t"
  define w2 where "w2 = w\<lparr>trace := trace w @ [TelegramSend t tg, DiscordSend t dc]\<rparr>"
  show ?thesis
  proof (cases "tg = Inr True \<or> dc = Inr True")
    case False
    then show ?thesis
      using processSingleTweet_both_failed [of env w t tg dc res]
      by (simp add: tg_def [symmetric] dc_def [symmetric])
  next
    case True
    obtain r w3 where m: "markAsProcessed env (id_tw t) (publishedAt t) w2 = (r, w3)"
      by (cases "markAsProcessed env (id_tw t) (publishedAt t) w2")
    have p: "snd (processSingleTweet env t (res, w)) = emit (Sleep 1000) w3"
      using processSingleTweet_sent [of env w t tg dc r w3 res] True m
      by (simp add: tg_def dc_def w2_def)
    from markAsProcessed_cases [OF m] show ?thesis
      using True p
      by (auto simp add: w2_def stored_ids_def split: prod.splits)
  qed
qed

text \<open>What \<^verbatim>\<open>processTweet\<close> does to the table, and what its outcome says about it.\<close>

lemma processTweet_store:
  "(let (r, w') = processTweet env t w; evs = new_events w w' in
      (list_ex (is_mark_of t) evs \<longrightarrow> \<not> isl r \<and> list_ex (reports_success t) evs) \<and>
      (\<not> list_ex (is_mark_of t) evs \<longrightarrow> tweets_processed w' = tweets_processed w) \<and>
      (list_ex (mark_returned t) evs \<longrightarrow> id_tw t \<in> set (stored_ids w')) \<and>
      (\<forall>err. list_ex (mark_failed_with t err) evs \<longrightarrow>
         \<not> isl r \<and> tweets_processed w' = tweets_processed w) \<and>
      (\<forall>out. r = Inr out \<longrightarrow>
         skipped out = (id_tw t \<in> set (stored_ids w)) \<and>
         dbSaved out = list_ex (mark_returned t) evs \<and>
         (dbSaved out \<longrightarrow>
            id_tw t \<notin> set (stored_ids w) \<and>
            (\<exists>c. tweets_processed w' = tweets_processed w @
               [\<lparr>id_row = id_tw t, published_at = publishedAt t, created_at = c\<rparr>])) \<and>
         (\<not> dbSaved out \<longrightarrow> tweets_processed w' = tweets_processed w)))"
proof -
  obtain r1 w1 where e: "exists_tw env (id_tw t) w = (r1, w1)"
    by (cases "exists_tw env (id_tw t) w")
  from exists_tw_cases [OF e] obtain res where
    w1: "tweets_processed w1 = tweets_processed w"
        "trace w1 = trace w @ [DbQuery (SelectExists (id_tw t)) res]"
    and ex: "\<forall>b. r1 = Inr b \<longrightarrow> b = (id_tw t \<in> set (stored_ids w))"
    by blast
  show ?thesis
  proof (cases r1)
    case (Inl err)
    with e w1 show ?thesis by (simp add: processTweet_exists_thrown)
  next
    case (Inr b)
    with ex have st: "b = (id_tw t \<in> set (stored_ids w))" by blast
    show ?thesis
    proof (cases b)
      case True
      with Inr e w1 st show ?thesis by (simp add: processTweet_skipped)
    next
      case False
      with Inr e have e': "exists_tw env (id_tw t) w = (Inr False, w1)" by simp
      from False st have ns: "id_tw t \<notin> set (stored_ids w)" by simp
      show ?thesis
      proof (cases "telegram_sendTweet env (trace w1) t")
        case (Inl err)
        with e' w1 show ?thesis by (simp add: processTweet_telegram_thrown)
      next
        case tg: (Inr a)
        show ?thesis
        proof (cases "discord_sendTweet env (trace w1 @ [TelegramSend t (Inr a)]) t")
          case (Inl err)
          with e' tg w1 show ?thesis by (simp add: processTweet_discord_thrown)
        next
          case dc: (Inr c)
          show ?thesis
          proof (cases "a \<or> c")
            case False
            with e' tg dc w1 ns show ?thesis
              by (simp add: processTweet_both_failed)
          next
            case True
            obtain r w4 where m: "markAsProcessed env (id_tw t) (publishedAt t)
                (emit (DiscordSend t (Inr c)) (emit (TelegramSend t (Inr a)) w1)) = (r, w4)"
              by (cases "markAsProcessed env (id_tw t) (publishedAt t)
                (emit (DiscordSend t (Inr c)) (emit (TelegramSend t (Inr a)) w1))")
            from markAsProcessed_cases [OF m] show ?thesis
              using True w1 ns
              by (auto simp add: processTweet_sent [OF e' tg dc True m] stored_ids_def)
          qed
        qed
      qed
    qed
  qed
qed

text \<open>
  C4. For one post, in \<^verbatim>\<open>processSingleTweet\<close> and in \<^verbatim>\<open>processTweet\<close>:
  the insert into the store is attempted exactly when at least one of the two sinks returned
  true; when neither did, the table is left as it was, so the id is still absent for the
  next cycle's bulk check; when the insert returns, the id is in the store; and when the
  insert throws after a successful send, the function still returns normally, the sends
  stay in the trace, the table is unchanged, and the failure is recorded
  (as the last entry of \<^verbatim>\<open>result.errors\<close>, or as \<^verbatim>\<open>dbSaved = false\<close>).
  For \<^verbatim>\<open>processTweet\<close> the first four conjuncts hold whether or not it returns: an
  attempted insert means that it returned and that a sink had returned true, and without
  an attempted insert the table is as before. When it returns, \<^verbatim>\<open>dbSaved\<close> is true exactly
  when the insert was answered, and then the table is the old one with the row of this post
  appended; otherwise the table is unchanged.
\<close>

theorem store_write_policy:
  "(let (res', w') = processSingleTweet env t (res, w); evs = new_events w w' in
      list_ex (is_mark_of t) evs = list_ex (reports_success t) evs \<and>
      (\<not> list_ex (reports_success t) evs \<longrightarrow> tweets_processed w' = tweets_processed w) \<and>
      (list_ex (mark_returned t) evs \<longrightarrow> id_tw t \<in> set (stored_ids w')) \<and>
      (\<forall>err. list_ex (mark_failed_with t err) evs \<longrightarrow>
         list_ex (reports_success t) evs \<and> tweets_processed w' = tweets_processed w \<and>
         last (errors res') = ''DB error for tweet '' @ id_tw t @ '': '' @ errorMessage err)) \<and>
   (let (r, w') = processTweet env t w; evs = new_events w w' in
      (list_ex (is_mark_of t) evs \<longrightarrow> \<not> isl r \<and> list_ex (reports_success t) evs) \<and>
      (\<not> list_ex (is_mark_of t) evs \<longrightarrow> tweets_processed w' = tweets_processed w) \<and>
      (list_ex (mark_returned t) evs \<longrightarrow> id_tw t \<in> set (stored_ids w')) \<and>
      (\<forall>err. list_ex (mark_failed_with t err) evs \<longrightarrow>
         \<not> isl r \<and> tweets_processed w' = tweets_processed w) \<and>
      (\<forall>out. r = Inr out \<longrightarrow>
        list_ex (is_mark_of t) evs = list_ex (reports_success t) evs \<and>
        (telegram out \<or> discord out) = list_ex (reports_success t) evs \<and>
        (\<not> list_ex (reports_success t) evs \<longrightarrow>
           tweets_processed w' = tweets_processed w \<and> \<not> dbSaved out) \<and>
        (\<forall>err. list_ex (mark_failed_with t err) evs \<longrightarrow>
           list_ex (reports_success t) evs \<and> tweets_processed w' = tweets_processed w \<and>
           \<not> dbSaved out) \<and>
        dbSaved out = list_ex (mark_returned t) evs \<and>
        (dbSaved out \<longrightarrow>
           id_tw t \<notin> set (stored_ids w) \<and>
           (\<exists>c. tweets_processed w' = tweets_processed w @
              [\<lparr>id_row = id_tw t, published_at = publishedAt t, created_at = c\<rparr>])) \<and>
        (\<not> dbSaved out \<longrightarrow> tweets_processed w' = tweets_processed w)))"
proof -
  have H1: "(let (res', w') = processSingleTweet env t (res, w); evs = new_events w w' in
      list_ex (is_mark_of t) evs = list_ex (reports_success t) evs \<and>
      (\<not> list_ex (reports_success t) evs \<longrightarrow> tweets_processed w' = tweets_processed w) \<and>
      (list_ex (mark_returned t) evs \<longrightarrow> id_tw t \<in> set (stored_ids w')) \<and>
      (\<forall>err. list_ex (mark_failed_with t err) evs \<longrightarrow>
         list_ex (reports_success t) evs \<and> tweets_processed w' = tweets_processed w \<and>
         last (errors res') = ''DB error for tweet '' @ id_tw t @ '': '' @ errorMessage err))"
    using processSingleTweet_policy [of env t res w] processSingleTweet_stored [of env t res w]
    by (simp add: Let_def split: prod.splits)
  obtain r w2 where b: "processTweet env t w = (r, w2)"
    by (cases "processTweet env t w")
  have H2: "(let (r, w') = processTweet env t w; evs = new_events w w' in
      (list_ex (is_mark_of t) evs \<longrightarrow> \<not> isl r \<and> list_ex (reports_success t) evs) \<and>
      (\<not> list_ex (is_mark_of t) evs \<longrightarrow> tweets_processed w' = tweets_processed w) \<and>
      (list_ex (mark_returned t) evs \<longrightarrow> id_tw t \<in> set (stored_ids w')) \<and>
      (\<forall>err. list_ex (mark_failed_with t err) evs \<longrightarrow>
         \<not> isl r \<and> tweets_processed w' = tweets_processed w) \<and>
      (\<forall>out. r = Inr out \<longrightarrow>
        list_ex (is_mark_of t) evs = list_ex (reports_success t) evs \<and>
        (telegram out \<or> discord out) = list_ex (reports_success t) evs \<and>
        (\<not> list_ex (reports_success t) evs \<longrightarrow>
           tweets_processed w' = tweets_processed w \<and> \<not> dbSaved out) \<and>
        (\<forall>err. list_ex (mark_failed_with t err) evs \<longrightarrow>
           list_ex (reports_success t) evs \<and> tweets_processed w' = tweets_processed w \<and>
           \<not> dbSaved out) \<and>
        dbSaved out = list_ex (mark_returned t) evs \<and>
        (dbSaved out \<longrightarrow>
           id_tw t \<notin> set (stored_ids w) \<and>
           (\<exists>c. tweets_processed w' = tweets_processed w @
              [\<lparr>id_row = id_tw t, published_at = publishedAt t, created_at = c\<rparr>])) \<and>
        (\<not> dbSaved out \<longrightarrow> tweets_processed w' = tweets_processed w)))"
    using processTweet_policy [of env t w] processTweet_store [of env t w]
    unfolding b Let_def prod.case
    by blast
  from H1 H2 show ?thesis by (rule conjI)
qed

theorem store_write_policy_witness:
  "list_ex (reports_success (example_tweet ''1'' 100))
     (new_events empty_world (snd (processSingleTweet example_env_discord_down
        (example_tweet ''1'' 100) (emptyResult, empty_world)))) \<and>
   list_ex (is_mark_of (example_tweet ''1'' 100))
     (new_events empty_world (snd (processSingleTweet example_env_discord_down
        (example_tweet ''1'' 100) (emptyResult, empty_world)))) \<and>
   stored_ids (snd (processSingleTweet example_env_discord_down
        (example_tweet ''1'' 100) (emptyResult, empty_world))) = [''1''] \<and>
   \<not> list_ex (reports_success (example_tweet ''1'' 100))
     (new_events empty_world (snd (processSingleTweet (example_env_sinks_down (example_feed []))
        (example_tweet ''1'' 100) (emptyResult, empty_world)))) \<and>
   stored_ids (snd (processSingleTweet (example_env_sinks_down (example_feed []))
        (example_tweet ''1'' 100) (emptyResult, empty_world))) = [] \<and>
   list_ex (mark_failed_with (example_tweet ''1'' 100) (Error ''Connection terminated''))
     (new_events empty_world (snd (processSingleTweet (example_env_db_down (example_feed []))
        (example_tweet ''1'' 100) (emptyResult, empty_world)))) \<and>
   errors (fst (processSingleTweet (example_env_db_down (example_feed []))
        (example_tweet ''1'' 100) (emptyResult, empty_world))) =
     [''DB error for tweet 1: Connection terminated''] \<and>
   fst (processTweet example_env_discord_down (example_tweet ''1'' 100) empty_world) =
     Inr \<lparr>tweetId = ''1'', telegram = True, discord = False, dbSaved = True,
           skipped = False, error_tw = None\<rparr> \<and>
   list_ex (mark_returned (example_tweet ''1'' 100))
     (new_events empty_world
        (snd (processTweet example_env_discord_down (example_tweet ''1'' 100) empty_world))) \<and>
   tweets_processed
     (snd (processTweet example_env_discord_down (example_tweet ''1'' 100) empty_world)) =
     [example_row ''1'' 100] \<and>
   fst (processTweet (example_env_sinks_down (example_feed [])) (example_tweet ''1'' 100) empty_world) =
     Inr \<lparr>tweetId = ''1'', telegram = False, discord = False, dbSaved = False,
           skipped = False, error_tw = Some ''Both Telegram and Discord failed''\<rparr> \<and>
   tweets_processed (snd (processTweet (example_env_sinks_down (example_feed []))
     (example_tweet ''1'' 100) empty_world)) = [] \<and>
   fst (processTweet (example_env_db_down (example_feed [])) (example_tweet ''1'' 100) empty_world) =
     Inr \<lparr>tweetId = ''1'', telegram = True, discord = True, dbSaved = False,
           skipped = False, error_tw = None\<rparr> \<and>
   list_ex (mark_failed_with (example_tweet ''1'' 100) (Error ''Connection terminated''))
     (new_events empty_world (snd (processTweet (example_env_db_down (example_feed []))
        (example_tweet ''1'' 100) empty_world))) \<and>
   tweets_processed (snd (processTweet (example_env_db_down (example_feed []))
     (example_tweet ''1'' 100) empty_world)) = []"
  using store_write_policy [of example_env_discord_down "example_tweet ''1'' 100" emptyResult empty_world]
    store_write_policy [of "example_env_sinks_down (example_feed [])" "example_tweet ''1'' 100" emptyResult empty_world]
    store_write_policy [of "example_env_db_down (example_feed [])" "example_tweet ''1'' 100" emptyResult empty_world]
  by (simp add: eval_defs new_events_def stored_ids_def example_env_discord_down_def
      example_env_sinks_down_def example_env_db_down_def example_row_def)

section \<open>The first run and the failure streak, on concrete cycles\<close>

text \<open>
  C1. A first run on an empty store with two candidates, published at 100 and at 200
  (the feed lists the newer one first, as feeds do). \<^verbatim>\<open>toTweets\<close> sorts oldest first, so
  \<^verbatim>\<open>newTweets[0]\<close> is the post published at 100: that one is sent to both channels, and the
  post published at 200, the most recent, is only marked as processed.
\<close>

theorem first_run_sends_oldest:
  "process (example_env (example_feed [example_item ''2'' ''d200'', example_item ''1'' ''d100'']))
     \<lparr>consecutiveFailures = 0, alertSent = False\<rparr> empty_world =
   (\<lparr>totalFetched = 2, newTweets = 1, telegramSuccess = 1, telegramFailed = 0,
      discordSuccess = 1, discordFailed = 0, errors = []\<rparr>,
    \<lparr>consecutiveFailures = 0, alertSent = False\<rparr>,
    \<lparr>tweets_processed =
       [\<lparr>id_row = ''2'', published_at = 200, created_at = 0\<rparr>,
        \<lparr>id_row = ''1'', published_at = 100, created_at = 0\<rparr>],
     trace =
       [FetchRSS (Inr ''<rss/>''),
        DbQuery (SelectIdIn [''1'', ''2'']) (Inr []),
        DbQuery (InsertProcessed ''2'' 200) (Inr [''2'']),
        TelegramSend (example_tweet ''1'' 100) (Inr True),
        DiscordSend (example_tweet ''1'' 100) (Inr True),
        DbQuery (InsertProcessed ''1'' 100) (Inr [''1'']),
        Sleep 1000]\<rparr>)"
  by (simp add: eval_defs)

text \<open>
  C2. A cycle whose fetch succeeds and whose feed holds no tweet returns at the first
  early return of \<^verbatim>\<open>process\<close>, before the reset at the end of the try block: a streak of
  three failures with the alert sent is still there after the cycle. The same holds at the
  second early return, when every fetched tweet is already in the store.
\<close>

theorem early_return_keeps_streak:
  "process (example_env (example_feed []))
     \<lparr>consecutiveFailures = 3, alertSent = True\<rparr> empty_world =
   (emptyResult, \<lparr>consecutiveFailures = 3, alertSent = True\<rparr>,
    \<lparr>tweets_processed = [], trace = [FetchRSS (Inr ''<rss/>'')]\<rparr>) \<and>
   fst (snd (process (example_env (example_feed [example_item ''1'' ''d100'']))
     \<lparr>consecutiveFailures = 3, alertSent = True\<rparr>
     \<lparr>tweets_processed = [\<lparr>id_row = ''1'', published_at = 100, created_at = 0\<rparr>], trace = []\<rparr>)) =
   \<lparr>consecutiveFailures = 3, alertSent = True\<rparr>"
  by (simp add: eval_defs)

section \<open>Dispatch order\<close>

lemma telegram_sent_append [simp]:
  "telegram_sent (xs @ ys) = telegram_sent xs @ telegram_sent ys"
  by (induction xs rule: telegram_sent.induct) simp_all

lemma processSingleTweet_dispatch:
  "\<exists>evs. trace (snd (processSingleTweet env t rw)) = trace (snd rw) @ evs \<and>
         telegram_sent evs = [t]"
proof -
  let ?tg = "telegram_sendTweet env (trace (snd rw)) t"
  let ?w1 = "emit (TelegramSend t ?tg) (snd rw)"
  let ?dc = "discord_sendTweet env (trace ?w1) t"
  let ?w2 = "emit (DiscordSend t ?dc) ?w1"
  obtain r w3 where m: "markAsProcessed env (id_tw t) (publishedAt t) ?w2 = (r, w3)"
    by (cases "markAsProcessed env (id_tw t) (publishedAt t) ?w2")
  from markAsProcessed_trace [OF m] obtain x where
    t3: "trace w3 = trace ?w2 @ [DbQuery (InsertProcessed (id_tw t) (publishedAt t)) x]"
    by blast
  show ?thesis
    using m t3 by (cases r) (auto simp add: processSingleTweet_def Let_def)
qed

lemma processEach_dispatch:
  "\<exists>evs. trace (snd (processEach env ts rw)) = trace (snd rw) @ evs \<and> telegram_sent evs = ts"
proof (induction ts arbitrary: rw)
  case Nil
  show ?case by simp
next
  case (Cons t ts)
  from processSingleTweet_dispatch [of env t rw] obtain e1 where
    a: "trace (snd (processSingleTweet env t rw)) = trace (snd rw) @ e1" "telegram_sent e1 = [t]"
    by blast
  from Cons.IH [of "processSingleTweet env t rw"] obtain e2 where
    b: "trace (snd (processEach env ts (processSingleTweet env t rw))) =
          trace (snd (processSingleTweet env t rw)) @ e2" "telegram_sent e2 = ts"
    by blast
  from a b have "trace (snd (processEach env (t # ts) rw)) = trace (snd rw) @ (e1 @ e2) \<and>
    telegram_sent (e1 @ e2) = t # ts"
    by simp
  then show ?case by blast
qed

lemma sorted_toTweets: "sorted (map publishedAt (toTweets env feed))"
  by (simp add: toTweets_def)

text \<open>The cycle on the normal path: no early return, and not the first-run branch.\<close>

lemma process_normal_path:
  assumes "fetchRSS env (trace w) = Inr xml" and "parse env xml = Inr feed"
    and "db_error env (trace w @ [FetchRSS (Inr xml)])
           (SelectIdIn (map id_tw (toTweets env feed))) = None"
    and "set (stored_ids w) \<inter> set (map id_tw (toTweets env feed)) \<noteq> {} \<or>
         length (toTweets env feed) \<le> 1"
  shows "telegram_sent (new_events w (snd (snd (process env svc w)))) =
           filter (\<lambda>t. id_tw t \<notin> set (stored_ids w)) (toTweets env feed)"
proof -
  let ?w1 = "emit (FetchRSS (Inr xml)) w"
  let ?c = "toTweets env feed"
  let ?new = "filter (\<lambda>t. id_tw t \<notin> set (stored_ids w)) ?c"
  let ?ex = "set (stored_ids w) \<inter> set (map id_tw ?c)"
  have db: "db_error env (trace ?w1) (SelectIdIn (map id_tw ?c)) = None"
    using assms(3) by simp
  have st: "stored_ids ?w1 = stored_ids w" by (simp add: stored_ids_def)
  obtain w2 where s: "selectNewTweets env ?c ?w1 = (Inr (?ex, ?new), w2)"
    and t2: "\<exists>evs. trace w2 = trace w @ evs \<and> telegram_sent evs = []"
    using selectNewTweets_returned [OF db] by (auto simp add: st)
  from t2 obtain e2 where e2: "trace w2 = trace w @ e2" "telegram_sent e2 = []" by blast
  show ?thesis
  proof (cases "?c = []")
    case True
    then show ?thesis
      using assms(1,2) by (simp add: process_def process_try_def Let_def new_events_def)
  next
    case c: False
    show ?thesis
    proof (cases "?new = []")
      case True
      then show ?thesis
        using assms(1,2) c s e2
        by (simp add: process_def process_try_def Let_def)
    next
      case n: False
      let ?r = "emptyResult\<lparr>totalFetched := length ?c, newTweets := length ?new\<rparr>"
      from processEach_dispatch [of env ?new "(?r, w2)"] obtain e3 where
        e3: "trace (snd (processEach env ?new (?r, w2))) = trace w2 @ e3" "telegram_sent e3 = ?new"
        by auto
      have "process env svc w =
              (fst (processEach env ?new (?r, w2)), resetFailures svc,
               snd (processEach env ?new (?r, w2)))"
      proof (cases "?ex = {}")
        case True
        with assms(4) have "length ?c \<le> 1" by simp
        moreover have "length ?new \<le> length ?c" by simp
        ultimately have "\<not> Suc 0 < length ?new" by linarith
        then show ?thesis
          using assms(1,2) c n s
          by (simp add: process_def process_try_def Let_def split: prod.splits)
      next
        case False
        then show ?thesis
          using assms(1,2) c n s
          by (simp add: process_def process_try_def Let_def split: prod.splits)
      qed
      moreover have "trace (snd (processEach env ?new (?r, w2))) = trace w @ (e2 @ e3)"
        using e2 e3 by simp
      ultimately show ?thesis
        using e2 e3 new_events_append [of "snd (processEach env ?new (?r, w2))" w "e2 @ e3"]
        by simp
    qed
  qed
qed

lemma toTweets_three:
  assumes "mset (List.map_filter (rssItemToTweet env) (items feed)) = {#t1, t2, t3#}"
    and "publishedAt t2 < publishedAt t1" and "publishedAt t1 < publishedAt t3"
  shows "toTweets env feed = [t2, t1, t3]"
proof -
  let ?xs = "List.map_filter (rssItemToTweet env) (items feed)"
  have m: "mset ?xs = mset [t2, t1, t3]" using assms(1) by (simp add: ac_simps)
  then have "set ?xs = {t1, t2, t3}" by (metis assms(1) set_mset_mset set_mset_add_mset_insert set_mset_empty)
  with assms(2,3) have "inj_on publishedAt (set ?xs)"
    by (auto simp add: inj_on_def)
  from sort_key_inj_key_eq [OF m this] assms(2,3) show ?thesis
    by (simp add: toTweets_def)
qed

text \<open>
  C8, as the code has it. \<^verbatim>\<open>toTweets\<close> returns the candidates sorted by publish time,
  oldest first. On the normal path of \<^verbatim>\<open>process\<close> (some candidate is already stored, or
  there is at most one candidate) the posts are sent in exactly that order, the stored
  ones left out. Three candidates with published times T3 > T1 > T2 come out as T2, T1, T3.
\<close>

theorem dispatch_oldest_first:
  "sorted (map publishedAt (toTweets env feed)) \<and>
   (fetchRSS env (trace w) = Inr xml \<and> parse env xml = Inr feed \<and>
    db_error env (trace w @ [FetchRSS (Inr xml)])
      (SelectIdIn (map id_tw (toTweets env feed))) = None \<and>
    (set (stored_ids w) \<inter> set (map id_tw (toTweets env feed)) \<noteq> {} \<or>
     length (toTweets env feed) \<le> 1) \<longrightarrow>
      telegram_sent (new_events w (snd (snd (process env svc w)))) =
        filter (\<lambda>t. id_tw t \<notin> set (stored_ids w)) (toTweets env feed) \<and>
      sorted (map publishedAt (telegram_sent (new_events w (snd (snd (process env svc w))))))) \<and>
   (mset (List.map_filter (rssItemToTweet env) (items feed)) = {#t1, t2, t3#} \<and>
    publishedAt t3 > publishedAt t1 \<and> publishedAt t1 > publishedAt t2 \<longrightarrow>
      toTweets env feed = [t2, t1, t3])"
proof -
  have a: "sorted (map publishedAt (toTweets env feed))"
    by (rule sorted_toTweets)
  have b: "telegram_sent (new_events w (snd (snd (process env svc w)))) =
        filter (\<lambda>t. id_tw t \<notin> set (stored_ids w)) (toTweets env feed) \<and>
      sorted (map publishedAt (telegram_sent (new_events w (snd (snd (process env svc w))))))"
    if "fetchRSS env (trace w) = Inr xml" "parse env xml = Inr feed"
      "db_error env (trace w @ [FetchRSS (Inr xml)])
        (SelectIdIn (map id_tw (toTweets env feed))) = None"
      "set (stored_ids w) \<inter> set (map id_tw (toTweets env feed)) \<noteq> {} \<or>
       length (toTweets env feed) \<le> 1"
    using process_normal_path [OF that, of svc] sorted_filter [OF a]
    by simp
  have c: "toTweets env feed = [t2, t1, t3]"
    if "mset (List.map_filter (rssItemToTweet env) (items feed)) = {#t1, t2, t3#}"
      "publishedAt t3 > publishedAt t1" "publishedAt t1 > publishedAt t2"
    using toTweets_three [OF that(1) that(3) that(2)] .
  from a b c show ?thesis by blast
qed

theorem dispatch_oldest_first_witness:
  "fetchRSS (example_env example_feed_3) (trace (example_world [example_row ''t0'' 50])) =
     Inr ''<rss/>'' \<and>
   parse (example_env example_feed_3) ''<rss/>'' = Inr example_feed_3 \<and>
   set (stored_ids (example_world [example_row ''t0'' 50])) \<inter>
     set (map id_tw (toTweets (example_env example_feed_3) example_feed_3)) = {''t0''} \<and>
   telegram_sent (new_events (example_world [example_row ''t0'' 50])
     (snd (snd (process (example_env example_feed_3) initial_service
       (example_world [example_row ''t0'' 50]))))) =
     [example_tweet ''t2'' 100, example_tweet ''t1'' 200, example_tweet ''t3'' 300] \<and>
   mset (List.map_filter (rssItemToTweet (example_env example_feed_2))
          (items (example_feed [example_item ''t3'' ''d300'', example_item ''t1'' ''d200'',
                   example_item ''t2'' ''d100'']))) =
     {#example_tweet ''t1'' 200, example_tweet ''t2'' 100, example_tweet ''t3'' 300#} \<and>
   toTweets (example_env example_feed_2)
     (example_feed [example_item ''t3'' ''d300'', example_item ''t1'' ''d200'',
                    example_item ''t2'' ''d100'']) =
     [example_tweet ''t2'' 100, example_tweet ''t1'' 200, example_tweet ''t3'' 300]"
proof -
  let ?E = "example_env example_feed_3"
  let ?W = "example_world [example_row ''t0'' 50]"
  have h1: "fetchRSS ?E (trace ?W) = Inr ''<rss/>''" "parse ?E ''<rss/>'' = Inr example_feed_3"
    "db_error ?E (trace ?W @ [FetchRSS (Inr ''<rss/>'')])
       (SelectIdIn (map id_tw (toTweets ?E example_feed_3))) = None"
    by (simp_all add: example_env_fields)
  have h2: "set (stored_ids ?W) \<inter> set (map id_tw (toTweets ?E example_feed_3)) = {''t0''}"
    by (simp add: toTweets_example_feed_3 stored_ids_def example_world_def example_row_def
        example_tweet_def)
  have p1: "telegram_sent (new_events ?W (snd (snd (process ?E initial_service ?W)))) =
     [example_tweet ''t2'' 100, example_tweet ''t1'' 200, example_tweet ''t3'' 300]"
    using dispatch_oldest_first [where env = ?E and feed = example_feed_3 and w = ?W
        and xml = "''<rss/>''" and svc = initial_service] h1 h2
    by (simp add: toTweets_example_feed_3 stored_ids_def example_world_def example_row_def
        example_tweet_def)
  let ?F = "example_feed [example_item ''t3'' ''d300'', example_item ''t1'' ''d200'',
                   example_item ''t2'' ''d100'']"
  have h3: "mset (List.map_filter (rssItemToTweet (example_env example_feed_2)) (items ?F)) =
     {#example_tweet ''t1'' 200, example_tweet ''t2'' 100, example_tweet ''t3'' 300#}"
    by (simp add: rssItemToTweet_def example_env_def example_feed_def example_item_def
        example_tweet_def Let_def)
  have p2: "toTweets (example_env example_feed_2) ?F =
     [example_tweet ''t2'' 100, example_tweet ''t1'' 200, example_tweet ''t3'' 300]"
    using dispatch_oldest_first [where env = "example_env example_feed_2" and feed = ?F
        and ?t1.0 = "example_tweet ''t1'' 200" and ?t2.0 = "example_tweet ''t2'' 100"
        and ?t3.0 = "example_tweet ''t3'' 300"] h3
    by (simp add: example_tweet_def)
  from h1 h2 p1 h3 p2 show ?thesis by simp
qed

text \<open>
  C8, as stated, fails on candidates t1, t2, t3 published at 200, 100 and 300
  (so T3 > T1 > T2) with one older post already stored: the dispatch order is t2, t1, t3,
  not t1, t2, t3.
\<close>

theorem dispatch_order_counterexample:
  "publishedAt (example_tweet ''t3'' 300) > publishedAt (example_tweet ''t1'' 200) \<and>
   publishedAt (example_tweet ''t1'' 200) > publishedAt (example_tweet ''t2'' 100) \<and>
   telegram_sent (trace (snd (snd (process (example_env example_feed_3) initial_service
       (example_world [example_row ''t0'' 50]))))) =
     [example_tweet ''t2'' 100, example_tweet ''t1'' 200, example_tweet ''t3'' 300] \<and>
   telegram_sent (trace (snd (snd (process (example_env example_feed_3) initial_service
       (example_world [example_row ''t0'' 50]))))) \<noteq>
     [example_tweet ''t1'' 200, example_tweet ''t2'' 100, example_tweet ''t3'' 300]"
proof -
  let ?E = "example_env example_feed_3"
  let ?W = "example_world [example_row ''t0'' 50]"
  have h: "fetchRSS ?E (trace ?W) = Inr ''<rss/>''" "parse ?E ''<rss/>'' = Inr example_feed_3"
    "db_error ?E (trace ?W @ [FetchRSS (Inr ''<rss/>'')])
       (SelectIdIn (map id_tw (toTweets ?E example_feed_3))) = None"
    "set (stored_ids ?W) \<inter> set (map id_tw (toTweets ?E example_feed_3)) \<noteq> {} \<or>
     length (toTweets ?E example_feed_3) \<le> 1"
    by (simp_all add: example_env_fields toTweets_example_feed_3 stored_ids_def
        example_world_def example_row_def example_tweet_def)
  have n: "new_events ?W w' = trace w'" for w'
    by (simp add: new_events_def example_world_def)
  have "telegram_sent (trace (snd (snd (process ?E initial_service ?W)))) =
          filter (\<lambda>t. id_tw t \<notin> set (stored_ids ?W)) (toTweets ?E example_feed_3)"
    using process_normal_path [OF h, of initial_service] by (simp add: n)
  also have "\<dots> = [example_tweet ''t2'' 100, example_tweet ''t1'' 200, example_tweet ''t3'' 300]"
    by (simp add: toTweets_example_feed_3 stored_ids_def example_world_def example_row_def
        example_tweet_def)
  finally show ?thesis by (simp add: example_tweet_def)
qed

section \<open>Failures of the fetch stage\<close>

text \<open>
  C7, as stated, fails on a feed with one tweet and a database that refuses the bulk query: \<^verbatim>\<open>process\<close> has
  already written \<^verbatim>\<open>result.totalFetched = 1\<close> when the exception reaches the catch block,
  and returns it.
\<close>

theorem dedup_read_failure_keeps_count:
  "process (example_env_db_down example_feed_1) initial_service empty_world =
     (\<lparr>totalFetched = 1, newTweets = 0, telegramSuccess = 0, telegramFailed = 0,
       discordSuccess = 0, discordFailed = 0, errors = [''Connection terminated'']\<rparr>,
      \<lparr>consecutiveFailures = 1, alertSent = False\<rparr>,
      \<lparr>tweets_processed = [],
       trace = [FetchRSS (Inr ''<rss/>''),
                DbQuery (SelectIdIn [''1'']) (Inl (Error ''Connection terminated''))]\<rparr>)"
  by (simp add: eval_defs example_env_db_down_def example_feed_1_def initial_service_def)

lemma process_try_fetch_thrown:
  "fetchRSS env (trace w) = Inl e \<Longrightarrow>
   process_try env svc w = (Some e, emptyResult, svc, emit (FetchRSS (Inl e)) w)"
  by (simp add: process_try_def Let_def)

lemma poll_try_fetch_thrown:
  "fetchRSS env (trace w) = Inl e \<Longrightarrow> poll_try env w = (Inl e, emit (FetchRSS (Inl e)) w)"
  by (simp add: poll_try_def Let_def)

lemma selectNewTweets_thrown:
  "cands \<noteq> [] \<Longrightarrow> db_error env (trace w) (SelectIdIn (map id_tw cands)) = Some e \<Longrightarrow>
   selectNewTweets env cands w =
     (Inl e, emit (DbQuery (SelectIdIn (map id_tw cands)) (Inl e)) w)"
  by (simp add: selectNewTweets_def filterExisting_def query_def Let_def)

lemma process_try_read_thrown:
  "fetchRSS env (trace w) = Inr xml \<Longrightarrow> parse env xml = Inr feed \<Longrightarrow>
   toTweets env feed \<noteq> [] \<Longrightarrow>
   db_error env (trace w @ [FetchRSS (Inr xml)]) (SelectIdIn (map id_tw (toTweets env feed))) = Some e \<Longrightarrow>
   process_try env svc w =
     (Some e, emptyResult\<lparr>totalFetched := length (toTweets env feed)\<rparr>, svc,
      emit (DbQuery (SelectIdIn (map id_tw (toTweets env feed))) (Inl e))
        (emit (FetchRSS (Inr xml)) w))"
  by (simp add: process_try_def Let_def selectNewTweets_thrown)

lemma poll_try_read_thrown:
  "fetchRSS env (trace w) = Inr xml \<Longrightarrow> parse env xml = Inr feed \<Longrightarrow>
   toTweets env feed \<noteq> [] \<Longrightarrow>
   db_error env (trace w @ [FetchRSS (Inr xml)]) (SelectIdIn (map id_tw (toTweets env feed))) = Some e \<Longrightarrow>
   poll_try env w =
     (Inl e, emit (DbQuery (SelectIdIn (map id_tw (toTweets env feed))) (Inl e))
        (emit (FetchRSS (Inr xml)) w))"
  by (simp add: poll_try_def Let_def selectNewTweets_thrown)

text \<open>The catch block of process adds the message, and at most one alert call.\<close>

lemma process_catch:
  assumes "process_try env svc w = (Some e, r, svc', w1)"
  shows "fst (process env svc w) = r\<lparr>errors := errors r @ [errorMessage e]\<rparr> \<and>
         tweets_processed (snd (snd (process env svc w))) = tweets_processed w1 \<and>
         (\<exists>al. trace (snd (snd (process env svc w))) = trace w1 @ al \<and>
               filter is_send al = [] \<and> filter is_insert al = [])"
  using assms
  by (auto simp add: process_def Let_def sendNitterFailureAlert_def)

lemma process_try_aborted:
  assumes "process_try env svc w = (Some e, r, svc', w')"
  shows "\<exists>evs. trace w' = trace w @ evs \<and> filter is_send evs = []"
  using assms
  by (auto simp add: process_try_def Let_def
      split: sum.splits prod.splits if_splits option.splits
      dest!: selectNewTweets_trace markOlder_trace dest: inserts_no_send)

lemma aborted_cycle_no_send:
  assumes "cycle_failed env svc w"
  shows "filter is_send (new_events w (snd (snd (process env svc w)))) = []"
proof -
  obtain e r svc' w1 where pt: "process_try env svc w = (Some e, r, svc', w1)"
    using assms by (cases "process_try env svc w") (auto simp add: cycle_failed_def)
  from process_try_aborted [OF pt] obtain evs where
    e1: "trace w1 = trace w @ evs" "filter is_send evs = []" by blast
  from process_catch [OF pt] obtain al where
    e2: "trace (snd (snd (process env svc w))) = trace w1 @ al" "filter is_send al = []" by blast
  from e1 e2 have "trace (snd (snd (process env svc w))) = trace w @ (evs @ al)" by simp
  from new_events_append [OF this] e1 e2 show ?thesis by simp
qed

lemma exists_tw_returns:
  "db_error env (trace w) (SelectExists i) = None \<Longrightarrow>
   \<exists>b w1. exists_tw env i w = (Inr b, w1)"
  by (simp add: exists_tw_def query_def Let_def)

lemma processTweet_returns:
  assumes "\<forall>tr q. is_read q \<longrightarrow> db_error env tr q = None"
    and "\<forall>tr t. \<not> isl (telegram_sendTweet env tr t)"
    and "\<forall>tr t. \<not> isl (discord_sendTweet env tr t)"
  shows "\<exists>out w'. processTweet env t w = (Inr out, w')"
proof -
  from assms(1) have "db_error env (trace w) (SelectExists (id_tw t)) = None" by simp
  from exists_tw_returns [OF this] obtain b w1 where
    e: "exists_tw env (id_tw t) w = (Inr b, w1)" by blast
  show ?thesis
  proof (cases b)
    case True
    with e show ?thesis by (simp add: processTweet_skipped)
  next
    case False
    with e have e': "exists_tw env (id_tw t) w = (Inr False, w1)" by simp
    from assms(2) obtain a where tg: "telegram_sendTweet env (trace w1) t = Inr a"
      by (cases "telegram_sendTweet env (trace w1) t") (auto simp add: isl_def)
    from assms(3) obtain c where
      dc: "discord_sendTweet env (trace w1 @ [TelegramSend t (Inr a)]) t = Inr c"
      by (cases "discord_sendTweet env (trace w1 @ [TelegramSend t (Inr a)]) t")
        (auto simp add: isl_def)
    show ?thesis
    proof (cases "a \<or> c")
      case True
      obtain r w4 where m: "markAsProcessed env (id_tw t) (publishedAt t)
          (emit (DiscordSend t (Inr c)) (emit (TelegramSend t (Inr a)) w1)) = (r, w4)"
        by (cases "markAsProcessed env (id_tw t) (publishedAt t)
          (emit (DiscordSend t (Inr c)) (emit (TelegramSend t (Inr a)) w1))")
      from processTweet_sent [OF e' tg dc True m] show ?thesis by blast
    next
      case False
      with processTweet_both_failed [OF e'] tg dc show ?thesis by auto
    qed
  qed
qed

lemma pollEach_returns:
  assumes "\<forall>tr q. is_read q \<longrightarrow> db_error env tr q = None"
    and "\<forall>tr t. \<not> isl (telegram_sendTweet env tr t)"
    and "\<forall>tr t. \<not> isl (discord_sendTweet env tr t)"
  shows "\<exists>rs' w'. pollEach env ts rs w = (Inr rs', w')"
proof (induction ts arbitrary: rs w)
  case Nil
  show ?case by simp
next
  case (Cons t ts)
  from processTweet_returns [OF assms] obtain out w1 where
    "processTweet env t w = (Inr out, w1)" by blast
  with Cons.IH show ?case by simp
qed

lemma poll_succeeds:
  assumes "fetchRSS env (trace w) = Inr xml" and "parse env xml = Inr feed"
    and "\<forall>tr q. is_read q \<longrightarrow> db_error env tr q = None"
    and "\<forall>tr t. \<not> isl (telegram_sendTweet env tr t)"
    and "\<forall>tr t. \<not> isl (discord_sendTweet env tr t)"
  shows "success (fst (poll env w))"
proof -
  let ?w1 = "emit (FetchRSS (Inr xml)) w"
  let ?c = "toTweets env feed"
  from assms(3) have "db_error env (trace ?w1) (SelectIdIn (map id_tw ?c)) = None" by simp
  from selectNewTweets_returned [OF this] obtain ex new w2 where
    s: "selectNewTweets env ?c ?w1 = (Inr (ex, new), w2)" by blast
  from pollEach_returns [OF assms(3,4,5)] obtain rs' w3 where
    p: "pollEach env new [] w2 = (Inr rs', w3)" by blast
  show ?thesis
    using assms(1,2) s p by (simp add: poll_def poll_try_def Let_def)
qed

text \<open>
  C7, as the code has it. When the fetch throws, \<^verbatim>\<open>process\<close> returns all counts zero
  with the message as its only error, \<^verbatim>\<open>poll\<close> returns \<^verbatim>\<open>success = false\<close> with zero
  counts and the message, and neither has called a sink or changed the store. When the
  bulk read of the deduplication step throws, the same holds, except that \<^verbatim>\<open>process\<close>
  reports the number of fetched candidates in \<^verbatim>\<open>totalFetched\<close>. A cycle of \<^verbatim>\<open>process\<close>
  that is left by an exception has called no sink, so a failing send or a failing mark
  after a send never aborts it. And \<^verbatim>\<open>poll\<close> completes with \<^verbatim>\<open>success = true\<close>
  whenever the fetch, the parse and the store reads succeed and the sinks return, whatever
  the sinks return and whether or not the marks land.
\<close>

theorem fetch_stage_failure:
  "(fetchRSS env (trace w) = Inl e \<longrightarrow>
      fst (process env svc w) = emptyResult\<lparr>errors := [errorMessage e]\<rparr> \<and>
      fst (poll env w) = \<lparr>success = False, tweetsFound = 0, tweetsProcessed = 0, results = [],
                           error_poll = Some (errorMessage e)\<rparr> \<and>
      untouched w (snd (snd (process env svc w))) \<and> untouched w (snd (poll env w))) \<and>
   (fetchRSS env (trace w) = Inr xml \<and> parse env xml = Inr feed \<and> toTweets env feed \<noteq> [] \<and>
    db_error env (trace w @ [FetchRSS (Inr xml)])
      (SelectIdIn (map id_tw (toTweets env feed))) = Some e \<longrightarrow>
      fst (process env svc w) =
        emptyResult\<lparr>totalFetched := length (toTweets env feed), errors := [errorMessage e]\<rparr> \<and>
      fst (poll env w) = \<lparr>success = False, tweetsFound = 0, tweetsProcessed = 0, results = [],
                           error_poll = Some (errorMessage e)\<rparr> \<and>
      untouched w (snd (snd (process env svc w))) \<and> untouched w (snd (poll env w))) \<and>
   (cycle_failed env svc w \<longrightarrow>
      filter is_send (new_events w (snd (snd (process env svc w)))) = []) \<and>
   (fetchRSS env (trace w) = Inr xml \<and> parse env xml = Inr feed \<and>
    (\<forall>tr q. is_read q \<longrightarrow> db_error env tr q = None) \<and>
    (\<forall>tr t. \<not> isl (telegram_sendTweet env tr t)) \<and>
    (\<forall>tr t. \<not> isl (discord_sendTweet env tr t)) \<longrightarrow>
      success (fst (poll env w)))"
proof -
  have a: "fst (process env svc w) = emptyResult\<lparr>errors := [errorMessage e]\<rparr> \<and>
      fst (poll env w) = \<lparr>success = False, tweetsFound = 0, tweetsProcessed = 0, results = [],
                           error_poll = Some (errorMessage e)\<rparr> \<and>
      untouched w (snd (snd (process env svc w))) \<and> untouched w (snd (poll env w))"
    if h: "fetchRSS env (trace w) = Inl e"
  proof -
    from process_catch [OF process_try_fetch_thrown [OF h]] obtain al where
      "fst (process env svc w) = emptyResult\<lparr>errors := errors emptyResult @ [errorMessage e]\<rparr>"
      "tweets_processed (snd (snd (process env svc w))) = tweets_processed (emit (FetchRSS (Inl e)) w)"
      "trace (snd (snd (process env svc w))) = trace (emit (FetchRSS (Inl e)) w) @ al"
      "filter is_send al = []" "filter is_insert al = []"
      by blast
    then have "fst (process env svc w) = emptyResult\<lparr>errors := [errorMessage e]\<rparr> \<and>
       untouched w (snd (snd (process env svc w)))"
      by (simp add: untouched_def new_events_def emptyResult_def)
    moreover have "fst (poll env w) = \<lparr>success = False, tweetsFound = 0, tweetsProcessed = 0,
        results = [], error_poll = Some (errorMessage e)\<rparr> \<and> untouched w (snd (poll env w))"
      by (simp add: poll_def poll_try_fetch_thrown [OF h] untouched_def new_events_def)
    ultimately show ?thesis by simp
  qed
  have b: "fst (process env svc w) =
        emptyResult\<lparr>totalFetched := length (toTweets env feed), errors := [errorMessage e]\<rparr> \<and>
      fst (poll env w) = \<lparr>success = False, tweetsFound = 0, tweetsProcessed = 0, results = [],
                           error_poll = Some (errorMessage e)\<rparr> \<and>
      untouched w (snd (snd (process env svc w))) \<and> untouched w (snd (poll env w))"
    if h: "fetchRSS env (trace w) = Inr xml" "parse env xml = Inr feed" "toTweets env feed \<noteq> []"
      "db_error env (trace w @ [FetchRSS (Inr xml)])
         (SelectIdIn (map id_tw (toTweets env feed))) = Some e"
  proof -
    let ?w1 = "emit (DbQuery (SelectIdIn (map id_tw (toTweets env feed))) (Inl e))
        (emit (FetchRSS (Inr xml)) w)"
    from process_catch [OF process_try_read_thrown [OF h]] obtain al where
      "fst (process env svc w) = emptyResult\<lparr>totalFetched := length (toTweets env feed),
          errors := errors (emptyResult\<lparr>totalFetched := length (toTweets env feed)\<rparr>) @ [errorMessage e]\<rparr>"
      "tweets_processed (snd (snd (process env svc w))) = tweets_processed ?w1"
      "trace (snd (snd (process env svc w))) = trace ?w1 @ al"
      "filter is_send al = []" "filter is_insert al = []"
      by auto
    then have "fst (process env svc w) =
        emptyResult\<lparr>totalFetched := length (toTweets env feed), errors := [errorMessage e]\<rparr> \<and>
       untouched w (snd (snd (process env svc w)))"
      by (simp add: untouched_def new_events_def emptyResult_def)
    moreover have "fst (poll env w) = \<lparr>success = False, tweetsFound = 0, tweetsProcessed = 0,
        results = [], error_poll = Some (errorMessage e)\<rparr> \<and> untouched w (snd (poll env w))"
      by (simp add: poll_def poll_try_read_thrown [OF h] untouched_def new_events_def)
    ultimately show ?thesis by simp
  qed
  from a b aborted_cycle_no_send [of env svc w] poll_succeeds [of env w xml feed]
  show ?thesis by blast
qed

theorem fetch_stage_failure_witness:
  "fetchRSS example_env_down (trace empty_world) = Inl (Error ''connect ECONNREFUSED'') \<and>
   fst (process example_env_down initial_service empty_world) =
     emptyResult\<lparr>errors := [''connect ECONNREFUSED'']\<rparr> \<and>
   fst (poll example_env_down empty_world) =
     \<lparr>success = False, tweetsFound = 0, tweetsProcessed = 0, results = [],
      error_poll = Some ''connect ECONNREFUSED''\<rparr> \<and>
   cycle_failed example_env_down initial_service empty_world \<and>
   filter is_send (new_events empty_world
     (snd (snd (process example_env_down initial_service empty_world)))) = [] \<and>
   toTweets (example_env_db_down example_feed_1) example_feed_1 = [example_tweet ''1'' 100] \<and>
   db_error (example_env_db_down example_feed_1) (trace empty_world @ [FetchRSS (Inr ''<rss/>'')])
     (SelectIdIn [''1'']) = Some (Error ''Connection terminated'') \<and>
   fst (process (example_env_db_down example_feed_1) initial_service empty_world) =
     emptyResult\<lparr>totalFetched := 1, errors := [''Connection terminated'']\<rparr> \<and>
   fst (poll (example_env_db_down example_feed_1) empty_world) =
     \<lparr>success = False, tweetsFound = 0, tweetsProcessed = 0, results = [],
      error_poll = Some ''Connection terminated''\<rparr> \<and>
   untouched empty_world (snd (poll (example_env_db_down example_feed_1) empty_world)) \<and>
   success (fst (poll (example_env_sinks_down example_feed_1) empty_world))"
proof -
  let ?D = example_env_down
  let ?e = "Error ''connect ECONNREFUSED''"
  have h1: "fetchRSS ?D (trace empty_world) = Inl ?e"
    by (simp add: example_env_down_def)
  have c1: "cycle_failed ?D initial_service empty_world"
    by (simp add: cycle_failed_def example_env_down_fails)
  have p1: "fst (process ?D initial_service empty_world) = emptyResult\<lparr>errors := [''connect ECONNREFUSED'']\<rparr> \<and>
     fst (poll ?D empty_world) =
       \<lparr>success = False, tweetsFound = 0, tweetsProcessed = 0, results = [],
        error_poll = Some ''connect ECONNREFUSED''\<rparr> \<and>
     filter is_send (new_events empty_world (snd (snd (process ?D initial_service empty_world)))) = []"
    using fetch_stage_failure [where env = ?D and w = empty_world and e = ?e
        and svc = initial_service] h1 c1
    by simp
  let ?B = "example_env_db_down example_feed_1"
  let ?f = "Error ''Connection terminated''"
  have h2: "fetchRSS ?B (trace empty_world) = Inr ''<rss/>''" "parse ?B ''<rss/>'' = Inr example_feed_1"
    "toTweets ?B example_feed_1 = [example_tweet ''1'' 100]"
    "db_error ?B (trace empty_world @ [FetchRSS (Inr ''<rss/>'')]) (SelectIdIn [''1'']) = Some ?f"
    by (simp_all add: toTweets_example_feed_1) (simp_all add: example_env_db_down_def example_env_def)
  have p2: "fst (process ?B initial_service empty_world) =
       emptyResult\<lparr>totalFetched := 1, errors := [''Connection terminated'']\<rparr> \<and>
     fst (poll ?B empty_world) =
       \<lparr>success = False, tweetsFound = 0, tweetsProcessed = 0, results = [],
        error_poll = Some ''Connection terminated''\<rparr> \<and>
     untouched empty_world (snd (poll ?B empty_world))"
    using fetch_stage_failure [where env = ?B and w = empty_world and e = ?f
        and svc = initial_service and xml = "''<rss/>''" and feed = example_feed_1] h2
    by (simp add: example_tweet_def)
  let ?S = "example_env_sinks_down example_feed_1"
  have h3: "fetchRSS ?S (trace empty_world) = Inr ''<rss/>''" "parse ?S ''<rss/>'' = Inr example_feed_1"
    "\<forall>tr q. is_read q \<longrightarrow> db_error ?S tr q = None"
    "\<forall>tr t. \<not> isl (telegram_sendTweet ?S tr t)" "\<forall>tr t. \<not> isl (discord_sendTweet ?S tr t)"
    by (simp_all add: example_env_sinks_down_def example_env_def)
  have p3: "success (fst (poll ?S empty_world))"
    using fetch_stage_failure [where env = ?S and w = empty_world
        and xml = "''<rss/>''" and feed = example_feed_1] h3
    by blast
  from h1 c1 p1 h2 p2 p3 show ?thesis by simp
qed

section \<open>The recheck before sending\<close>

text \<open>Lists of events that are \<open>rechecked\<close>.\<close>

lemma rechecked_no_send_first: "rechecked ys \<Longrightarrow> ys = [] \<or> \<not> is_send (hd ys)"
  by (cases ys rule: rechecked.cases) simp_all

lemma rechecked_after_telegram:
  "rechecked ys \<Longrightarrow>
   rechecked (DbQuery (SelectExists (id_tw t)) (Inr []) # TelegramSend t x # ys)"
  by (cases ys rule: rechecked.cases) simp_all

lemma rechecked_after_query: "rechecked ys \<Longrightarrow> rechecked (DbQuery q r # ys)"
  by (cases "DbQuery q r # ys" rule: rechecked.cases) auto

lemma rechecked_append: "rechecked xs \<Longrightarrow> rechecked ys \<Longrightarrow> rechecked (xs @ ys)"
  by (induction xs rule: rechecked.induct)
    (auto dest: rechecked_no_send_first intro: rechecked_after_telegram rechecked_after_query)

text \<open>The answers of \<^verbatim>\<open>exists\<close>.\<close>

lemma exists_tw_false:
  "exists_tw env i w = (Inr False, w1) \<Longrightarrow>
   trace w1 = trace w @ [DbQuery (SelectExists i) (Inr [])] \<and>
   tweets_processed w1 = tweets_processed w \<and> i \<notin> set (stored_ids w)"
  by (auto simp add: exists_tw_def query_def Let_def stored_ids_def filter_empty_conv
      split: option.splits if_splits)

lemma exists_tw_stored:
  "i \<in> set (stored_ids w) \<Longrightarrow> db_error env (trace w) (SelectExists i) = None \<Longrightarrow>
   exists_tw env i w = (Inr True, emit (DbQuery (SelectExists i) (Inr [''1''])) w)"
proof -
  assume a: "i \<in> set (stored_ids w)" and d: "db_error env (trace w) (SelectExists i) = None"
  from a have "filter (\<lambda>r. id_row r = i) (tweets_processed w) \<noteq> []"
    by (auto simp add: stored_ids_def filter_empty_conv)
  then obtain r rs where "filter (\<lambda>r. id_row r = i) (tweets_processed w) = r # rs"
    by (cases "filter (\<lambda>r. id_row r = i) (tweets_processed w)") auto
  with d show ?thesis
    by (simp add: exists_tw_def query_def Let_def emit_def)
qed

text \<open>The events of one processTweet call.\<close>

lemma processTweet_shape:
  "\<exists>evs res x y z.
     trace (snd (processTweet env t w)) = trace w @ evs \<and>
     (evs = [DbQuery (SelectExists (id_tw t)) res] \<or>
      id_tw t \<notin> set (stored_ids w) \<and>
      (evs = [DbQuery (SelectExists (id_tw t)) (Inr []), TelegramSend t x] \<or>
       evs = [DbQuery (SelectExists (id_tw t)) (Inr []), TelegramSend t x, DiscordSend t y] \<or>
       evs = [DbQuery (SelectExists (id_tw t)) (Inr []), TelegramSend t x, DiscordSend t y,
              DbQuery (InsertProcessed (id_tw t) (publishedAt t)) z]))"
proof -
  obtain r1 w1 where e: "exists_tw env (id_tw t) w = (r1, w1)"
    by (cases "exists_tw env (id_tw t) w")
  from exists_tw_cases [OF e] obtain res where
    w1: "trace w1 = trace w @ [DbQuery (SelectExists (id_tw t)) res]"
    by blast
  show ?thesis
  proof (cases r1)
    case (Inl err)
    with e w1 show ?thesis by (simp add: processTweet_exists_thrown)
  next
    case (Inr b)
    show ?thesis
    proof (cases b)
      case True
      with Inr e w1 show ?thesis by (simp add: processTweet_skipped)
    next
      case False
      with Inr e have e': "exists_tw env (id_tw t) w = (Inr False, w1)" by simp
      from exists_tw_false [OF e'] have
        f: "trace w1 = trace w @ [DbQuery (SelectExists (id_tw t)) (Inr [])]"
           "id_tw t \<notin> set (stored_ids w)"
        by simp_all
      show ?thesis
      proof (cases "telegram_sendTweet env (trace w1) t")
        case (Inl err)
        with e' f show ?thesis by (simp add: processTweet_telegram_thrown)
      next
        case tg: (Inr a)
        show ?thesis
        proof (cases "discord_sendTweet env (trace w1 @ [TelegramSend t (Inr a)]) t")
          case (Inl err)
          with e' tg f show ?thesis by (simp add: processTweet_discord_thrown)
        next
          case dc: (Inr c)
          show ?thesis
          proof (cases "a \<or> c")
            case False
            with e' tg dc f show ?thesis
              by (simp add: processTweet_both_failed)
          next
            case True
            obtain r w4 where m: "markAsProcessed env (id_tw t) (publishedAt t)
                (emit (DiscordSend t (Inr c)) (emit (TelegramSend t (Inr a)) w1)) = (r, w4)"
              by (cases "markAsProcessed env (id_tw t) (publishedAt t)
                (emit (DiscordSend t (Inr c)) (emit (TelegramSend t (Inr a)) w1))")
            from markAsProcessed_trace [OF m] obtain z where
              "trace w4 = trace w @ [DbQuery (SelectExists (id_tw t)) (Inr []),
                 TelegramSend t (Inr a), DiscordSend t (Inr c),
                 DbQuery (InsertProcessed (id_tw t) (publishedAt t)) z]"
              using f by auto
            with f show ?thesis
              by (simp add: processTweet_sent [OF e' tg dc True m])
          qed
        qed
      qed
    qed
  qed
qed

lemma processTweet_rechecked:
  "\<exists>evs. trace (snd (processTweet env t w)) = trace w @ evs \<and> rechecked evs"
  using processTweet_shape [of env t w] by auto

text \<open>The loop of \<^verbatim>\<open>poll\<close>, and the whole cycle.\<close>

lemma pollEach_rechecked:
  "\<exists>evs. trace (snd (pollEach env ts rs w)) = trace w @ evs \<and> rechecked evs"
proof (induction ts arbitrary: rs w)
  case Nil
  show ?case by simp
next
  case (Cons t ts)
  obtain r w1 where p: "processTweet env t w = (r, w1)"
    by (cases "processTweet env t w")
  from processTweet_rechecked [of env t w] p obtain e1 where
    e1: "trace w1 = trace w @ e1" "rechecked e1" by auto
  show ?case
  proof (cases r)
    case (Inl err)
    with p e1 show ?thesis by simp
  next
    case (Inr out)
    let ?w2 = "if ts \<noteq> [] then emit (Sleep 1000) w1 else w1"
    let ?s = "if ts \<noteq> [] then [Sleep 1000] else []"
    have s: "trace ?w2 = trace w @ (e1 @ ?s)" "rechecked ?s"
      using e1 by simp_all
    from Cons.IH [of "rs @ [out]" ?w2] obtain e2 where
      e2: "trace (snd (pollEach env ts (rs @ [out]) ?w2)) = trace ?w2 @ e2" "rechecked e2"
      by blast
    have "trace (snd (pollEach env (t # ts) rs w)) = trace w @ ((e1 @ ?s) @ e2)"
      using p Inr e2(1) s(1) by simp
    moreover have "rechecked ((e1 @ ?s) @ e2)"
      using e1(2) s(2) e2(2) by (intro rechecked_append)
    ultimately show ?thesis by blast
  qed
qed

lemma poll_rechecked:
  "\<exists>evs. trace (snd (poll env w)) = trace w @ evs \<and> rechecked evs"
proof (cases "fetchRSS env (trace w)")
  case (Inl err)
  then show ?thesis by (simp add: poll_def poll_try_fetch_thrown)
next
  case f: (Inr xml)
  let ?w1 = "emit (FetchRSS (Inr xml)) w"
  show ?thesis
  proof (cases "parse env xml")
    case (Inl err)
    with f show ?thesis by (simp add: poll_def poll_try_def Let_def)
  next
    case p: (Inr feed)
    let ?c = "toTweets env feed"
    show ?thesis
    proof (cases "?c = []")
      case True
      with f p show ?thesis by (simp add: poll_def poll_try_def Let_def)
    next
      case c: False
      obtain r w2 where s: "selectNewTweets env ?c ?w1 = (r, w2)"
        by (cases "selectNewTweets env ?c ?w1")
      from selectNewTweets_trace [OF s] c obtain res where
        w2: "trace w2 = trace w @ [FetchRSS (Inr xml), DbQuery (SelectIdIn (map id_tw ?c)) res]"
        by auto
      show ?thesis
      proof (cases r)
        case (Inl err)
        with f p c s w2 show ?thesis by (simp add: poll_def poll_try_def Let_def)
      next
        case (Inr en)
        obtain ex new where en: "en = (ex, new)" by (cases en)
        show ?thesis
        proof (cases "new = []")
          case True
          with f p c s w2 Inr en show ?thesis by (simp add: poll_def poll_try_def Let_def)
        next
          case n: False
          from pollEach_rechecked [of env new "[]" w2] obtain e2 where
            e2: "trace (snd (pollEach env new [] w2)) = trace w2 @ e2" "rechecked e2" by blast
          have "trace (snd (poll env w)) = trace (snd (pollEach env new [] w2))"
            using f p c s Inr en n
            by (simp add: poll_def poll_try_def Let_def split: prod.splits sum.splits)
          with e2 w2 have "trace (snd (poll env w)) =
              trace w @ ([FetchRSS (Inr xml), DbQuery (SelectIdIn (map id_tw ?c)) res] @ e2)"
            by simp
          moreover have "rechecked ([FetchRSS (Inr xml), DbQuery (SelectIdIn (map id_tw ?c)) res] @ e2)"
            using e2(2) by (intro rechecked_append) simp_all
          ultimately show ?thesis by blast
        qed
      qed
    qed
  qed
qed

text \<open>The events of one \<^verbatim>\<open>processSingleTweet\<close> call.\<close>

lemma processSingleTweet_first_event:
  "\<exists>x rest. trace (snd (processSingleTweet env t rw)) = trace (snd rw) @ TelegramSend t x # rest \<and>
     filter is_exists_query (TelegramSend t x # rest) = []"
proof -
  let ?tg = "telegram_sendTweet env (trace (snd rw)) t"
  let ?w1 = "emit (TelegramSend t ?tg) (snd rw)"
  let ?dc = "discord_sendTweet env (trace ?w1) t"
  let ?w2 = "emit (DiscordSend t ?dc) ?w1"
  obtain r w3 where m: "markAsProcessed env (id_tw t) (publishedAt t) ?w2 = (r, w3)"
    by (cases "markAsProcessed env (id_tw t) (publishedAt t) ?w2")
  from markAsProcessed_trace [OF m] obtain x where
    t3: "trace w3 = trace ?w2 @ [DbQuery (InsertProcessed (id_tw t) (publishedAt t)) x]"
    by blast
  show ?thesis
    using m t3 by (cases r) (auto simp add: processSingleTweet_def Let_def)
qed

text \<open>
  The two services on the same input: a feed that lists the post with id 2 twice, and a
  store that already holds id 1.
\<close>

lemma process_example_feed_dup:
  "snd (snd (process (example_env example_feed_dup) initial_service
          (example_world [example_row ''1'' 100]))) =
     \<lparr>tweets_processed = [example_row ''1'' 100, example_row ''2'' 200],
      trace =
        [FetchRSS (Inr ''<rss/>''),
         DbQuery (SelectIdIn [''1'', ''2'', ''2'']) (Inr [''1'']),
         TelegramSend (example_tweet ''2'' 200) (Inr True),
         DiscordSend (example_tweet ''2'' 200) (Inr True),
         DbQuery (InsertProcessed ''2'' 200) (Inr [''2'']),
         Sleep 1000,
         TelegramSend (example_tweet ''2'' 200) (Inr True),
         DiscordSend (example_tweet ''2'' 200) (Inr True),
         DbQuery (InsertProcessed ''2'' 200) (Inr []),
         Sleep 1000]\<rparr>"
  by (simp add: process_def process_try_def toTweets_example_feed_dup
      example_env_fields example_world_def example_row_def example_tweet_def initial_service_def
      selectNewTweets_def filterExisting_def query_def emit_def Let_def emptyResult_def
      processSingleTweet_def countTelegram_def countDiscord_def markAsProcessed_def
      resetFailures_def)

lemma poll_example_feed_dup:
  "poll (example_env example_feed_dup) (example_world [example_row ''1'' 100]) =
     (\<lparr>success = True, tweetsFound = 3, tweetsProcessed = 1,
       results =
         [\<lparr>tweetId = ''2'', telegram = True, discord = True, dbSaved = True,
            skipped = False, error_tw = None\<rparr>,
          \<lparr>tweetId = ''2'', telegram = False, discord = False, dbSaved = False,
            skipped = True, error_tw = None\<rparr>],
       error_poll = None\<rparr>,
      \<lparr>tweets_processed = [example_row ''1'' 100, example_row ''2'' 200],
       trace =
        [FetchRSS (Inr ''<rss/>''),
         DbQuery (SelectIdIn [''1'', ''2'', ''2'']) (Inr [''1'']),
         DbQuery (SelectExists ''2'') (Inr []),
         TelegramSend (example_tweet ''2'' 200) (Inr True),
         DiscordSend (example_tweet ''2'' 200) (Inr True),
         DbQuery (InsertProcessed ''2'' 200) (Inr [''2'']),
         Sleep 1000,
         DbQuery (SelectExists ''2'') (Inr [''1''])]\<rparr>)"
  by (simp add: poll_def poll_try_def toTweets_example_feed_dup
      example_env_fields example_world_def example_row_def example_tweet_def
      selectNewTweets_def filterExisting_def query_def emit_def Let_def
      markAsProcessed_def processTweet_def exists_tw_def)

text \<open>
  C5, as the code has it. \<^verbatim>\<open>processTweet\<close>, the per-post path of \<^verbatim>\<open>poll\<close>: its first
  call is \<^verbatim>\<open>tweetRepository.exists\<close> for the post's id; a sink is called only when the
  id is not in the store, and then the Telegram call comes directly behind that query,
  answered with no row; when the id is in the store and the query is answered, the
  outcome is the skipped one, the query is the only event and the table is unchanged; and
  whenever an outcome is returned, it is marked skipped exactly when the id was in the
  store, and then no sink was called. Every sink call of a whole \<^verbatim>\<open>poll\<close> cycle stands behind
  such a query. \<^verbatim>\<open>processSingleTweet\<close>, the per-post path of \<^verbatim>\<open>process\<close> with failure
  tracking, makes no such query: its first call is the Telegram send.
\<close>

theorem recheck_before_send:
  "(let (r, w') = processTweet env t w; evs = new_events w w' in
      (\<exists>q. take 1 evs = [DbQuery (SelectExists (id_tw t)) q]) \<and>
      (filter is_send evs \<noteq> [] \<longrightarrow>
         id_tw t \<notin> set (stored_ids w) \<and>
         (\<exists>x. take 2 evs = [DbQuery (SelectExists (id_tw t)) (Inr []), TelegramSend t x])) \<and>
      (id_tw t \<in> set (stored_ids w) \<and> db_error env (trace w) (SelectExists (id_tw t)) = None \<longrightarrow>
         r = Inr \<lparr>tweetId = id_tw t, telegram = False, discord = False, dbSaved = False,
                  skipped = True, error_tw = None\<rparr> \<and>
         evs = [DbQuery (SelectExists (id_tw t)) (Inr [''1''])] \<and>
         tweets_processed w' = tweets_processed w) \<and>
      (\<forall>out. r = Inr out \<longrightarrow>
         skipped out = (id_tw t \<in> set (stored_ids w)) \<and>
         (skipped out \<longrightarrow> filter is_send evs = []))) \<and>
   rechecked (new_events w (snd (poll env w))) \<and>
   (let evs = new_events w (snd (processSingleTweet env t (res, w))) in
      (\<exists>x. take 1 evs = [TelegramSend t x]) \<and> filter is_exists_query evs = [])"
proof -
  obtain r w' where p: "processTweet env t w = (r, w')"
    by (cases "processTweet env t w")
  from processTweet_shape [of env t w] p obtain evs q x y z where
    tr: "trace w' = trace w @ evs" and
    sh: "evs = [DbQuery (SelectExists (id_tw t)) q] \<or>
      id_tw t \<notin> set (stored_ids w) \<and>
      (evs = [DbQuery (SelectExists (id_tw t)) (Inr []), TelegramSend t x] \<or>
       evs = [DbQuery (SelectExists (id_tw t)) (Inr []), TelegramSend t x, DiscordSend t y] \<or>
       evs = [DbQuery (SelectExists (id_tw t)) (Inr []), TelegramSend t x, DiscordSend t y,
              DbQuery (InsertProcessed (id_tw t) (publishedAt t)) z])"
    by auto
  have ne: "new_events w w' = evs" using tr by simp
  have a: "\<exists>q. take 1 evs = [DbQuery (SelectExists (id_tw t)) q]"
    using sh by auto
  have b: "filter is_send evs \<noteq> [] \<longrightarrow>
         id_tw t \<notin> set (stored_ids w) \<and>
         (\<exists>x. take 2 evs = [DbQuery (SelectExists (id_tw t)) (Inr []), TelegramSend t x])"
    using sh by auto
  have c: "r = Inr \<lparr>tweetId = id_tw t, telegram = False, discord = False, dbSaved = False,
                  skipped = True, error_tw = None\<rparr> \<and>
         evs = [DbQuery (SelectExists (id_tw t)) (Inr [''1''])] \<and>
         tweets_processed w' = tweets_processed w"
    if h: "id_tw t \<in> set (stored_ids w)" "db_error env (trace w) (SelectExists (id_tw t)) = None"
    using processTweet_skipped [OF exists_tw_stored [OF h]] p tr by simp
  have d: "skipped out = (id_tw t \<in> set (stored_ids w))" if "r = Inr out" for out
    using processTweet_store [of env t w] p that by (simp add: Let_def)
  have e: "filter is_send evs = []" if "r = Inr out" "skipped out" for out
  proof -
    from d [OF that(1)] that(2) have "id_tw t \<in> set (stored_ids w)" by simp
    with b show ?thesis by blast
  qed
  have P1: "(let (r, w') = processTweet env t w; evs = new_events w w' in
      (\<exists>q. take 1 evs = [DbQuery (SelectExists (id_tw t)) q]) \<and>
      (filter is_send evs \<noteq> [] \<longrightarrow>
         id_tw t \<notin> set (stored_ids w) \<and>
         (\<exists>x. take 2 evs = [DbQuery (SelectExists (id_tw t)) (Inr []), TelegramSend t x])) \<and>
      (id_tw t \<in> set (stored_ids w) \<and> db_error env (trace w) (SelectExists (id_tw t)) = None \<longrightarrow>
         r = Inr \<lparr>tweetId = id_tw t, telegram = False, discord = False, dbSaved = False,
                  skipped = True, error_tw = None\<rparr> \<and>
         evs = [DbQuery (SelectExists (id_tw t)) (Inr [''1''])] \<and>
         tweets_processed w' = tweets_processed w) \<and>
      (\<forall>out. r = Inr out \<longrightarrow>
         skipped out = (id_tw t \<in> set (stored_ids w)) \<and>
         (skipped out \<longrightarrow> filter is_send evs = [])))"
    unfolding p Let_def prod.case ne
  proof (intro conjI allI impI)
    show "\<exists>q. take 1 evs = [DbQuery (SelectExists (id_tw t)) q]" by (rule a)
  next
    assume "filter is_send evs \<noteq> []"
    with b show "id_tw t \<notin> set (stored_ids w)" by blast
  next
    assume "filter is_send evs \<noteq> []"
    with b show "\<exists>x. take 2 evs = [DbQuery (SelectExists (id_tw t)) (Inr []), TelegramSend t x]"
      by blast
  next
    assume h: "id_tw t \<in> set (stored_ids w) \<and> db_error env (trace w) (SelectExists (id_tw t)) = None"
    then have h1: "id_tw t \<in> set (stored_ids w)"
      and h2: "db_error env (trace w) (SelectExists (id_tw t)) = None" by simp_all
    note cc = c [OF h1 h2]
    from cc show "r = Inr \<lparr>tweetId = id_tw t, telegram = False, discord = False, dbSaved = False,
                  skipped = True, error_tw = None\<rparr>" by simp
    from cc show "evs = [DbQuery (SelectExists (id_tw t)) (Inr [''1''])]" by simp
    from cc show "tweets_processed w' = tweets_processed w" by simp
  next
    fix out assume "r = Inr out"
    then show "skipped out = (id_tw t \<in> set (stored_ids w))" by (rule d)
  next
    fix out assume "r = Inr out" "skipped out"
    then show "filter is_send evs = []" by (rule e)
  qed
  have f: "rechecked (new_events w (snd (poll env w)))"
    using poll_rechecked [of env w] by auto
  from processSingleTweet_first_event [of env t "(res, w)"] obtain x' rest where
    g: "trace (snd (processSingleTweet env t (res, w))) = trace w @ TelegramSend t x' # rest"
       "filter is_exists_query (TelegramSend t x' # rest) = []"
    by auto
  have g': "new_events w (snd (processSingleTweet env t (res, w))) = TelegramSend t x' # rest"
    using g(1) by simp
  have P3: "(let evs = new_events w (snd (processSingleTweet env t (res, w))) in
      (\<exists>x. take 1 evs = [TelegramSend t x]) \<and> filter is_exists_query evs = [])"
    unfolding Let_def g' using g(2) by simp
  from P1 f P3 show ?thesis by (intro conjI)
qed

theorem recheck_before_send_witness:
  "id_tw (example_tweet ''1'' 100) \<in> set (stored_ids (example_world [example_row ''1'' 100])) \<and>
   db_error (example_env example_feed_dup) (trace (example_world [example_row ''1'' 100]))
     (SelectExists (id_tw (example_tweet ''1'' 100))) = None \<and>
   fst (processTweet (example_env example_feed_dup) (example_tweet ''1'' 100)
          (example_world [example_row ''1'' 100])) =
     Inr \<lparr>tweetId = ''1'', telegram = False, discord = False, dbSaved = False,
           skipped = True, error_tw = None\<rparr> \<and>
   new_events (example_world [example_row ''1'' 100])
     (snd (processTweet (example_env example_feed_dup) (example_tweet ''1'' 100)
          (example_world [example_row ''1'' 100]))) =
     [DbQuery (SelectExists ''1'') (Inr [''1''])] \<and>
   filter is_send (new_events (example_world [example_row ''1'' 100])
     (snd (processTweet (example_env example_feed_dup) (example_tweet ''2'' 200)
          (example_world [example_row ''1'' 100])))) =
     [TelegramSend (example_tweet ''2'' 200) (Inr True),
      DiscordSend (example_tweet ''2'' 200) (Inr True)] \<and>
   take 2 (new_events (example_world [example_row ''1'' 100])
     (snd (processTweet (example_env example_feed_dup) (example_tweet ''2'' 200)
          (example_world [example_row ''1'' 100])))) =
     [DbQuery (SelectExists ''2'') (Inr []), TelegramSend (example_tweet ''2'' 200) (Inr True)] \<and>
   rechecked (new_events (example_world [example_row ''1'' 100])
     (snd (poll (example_env example_feed_dup) (example_world [example_row ''1'' 100])))) \<and>
   map skipped (results (fst (poll (example_env example_feed_dup)
     (example_world [example_row ''1'' 100])))) = [False, True]"
proof -
  let ?E = "example_env example_feed_dup"
  let ?W = "example_world [example_row ''1'' 100]"
  let ?T1 = "example_tweet ''1'' 100"
  let ?T2 = "example_tweet ''2'' 200"
  have h: "id_tw ?T1 \<in> set (stored_ids ?W)"
    "db_error ?E (trace ?W) (SelectExists (id_tw ?T1)) = None"
    by (simp_all add: example_env_fields stored_ids_def example_world_def example_row_def
        example_tweet_def)
  have p1: "fst (processTweet ?E ?T1 ?W) =
       Inr \<lparr>tweetId = ''1'', telegram = False, discord = False, dbSaved = False,
             skipped = True, error_tw = None\<rparr> \<and>
     new_events ?W (snd (processTweet ?E ?T1 ?W)) = [DbQuery (SelectExists ''1'') (Inr [''1''])]"
    using recheck_before_send [where env = ?E and t = ?T1 and w = ?W and res = emptyResult] h
    by (simp add: Let_def example_tweet_def split: prod.splits)
  have s2: "filter is_send (new_events ?W (snd (processTweet ?E ?T2 ?W))) =
     [TelegramSend ?T2 (Inr True), DiscordSend ?T2 (Inr True)]"
    by (simp add: processTweet_def exists_tw_def markAsProcessed_def query_def emit_def Let_def
        new_events_def example_env_fields example_world_def example_row_def example_tweet_def)
  have p2: "take 2 (new_events ?W (snd (processTweet ?E ?T2 ?W))) =
     [DbQuery (SelectExists ''2'') (Inr []), TelegramSend ?T2 (Inr True)]"
    using recheck_before_send [where env = ?E and t = ?T2 and w = ?W and res = emptyResult] s2
    by (simp add: processTweet_def exists_tw_def markAsProcessed_def query_def emit_def Let_def
        new_events_def example_env_fields example_world_def example_row_def example_tweet_def)
  have p3: "rechecked (new_events ?W (snd (poll ?E ?W)))"
    using recheck_before_send [where env = ?E and t = ?T2 and w = ?W and res = emptyResult]
    by simp
  have p4: "map skipped (results (fst (poll ?E ?W))) = [False, True]"
    by (simp add: poll_example_feed_dup)
  from h p1 s2 p2 p3 p4 show ?thesis by simp
qed

text \<open>
  C5, as stated, fails for \<^verbatim>\<open>process\<close> with failure tracking. A feed that lists the post
  with id 2 twice, and a store that already holds id 1: both copies are dispatched through
  \<^verbatim>\<open>processSingleTweet\<close>, no \<^verbatim>\<open>SELECT 1 ... WHERE id = $1\<close> is ever sent, and the second
  copy goes to both sinks although the first dispatch has just stored its id.
\<close>

theorem no_recheck_in_processSingleTweet:
  "trace (snd (snd (process (example_env example_feed_dup) initial_service
          (example_world [example_row ''1'' 100])))) =
        [FetchRSS (Inr ''<rss/>''),
         DbQuery (SelectIdIn [''1'', ''2'', ''2'']) (Inr [''1'']),
         TelegramSend (example_tweet ''2'' 200) (Inr True),
         DiscordSend (example_tweet ''2'' 200) (Inr True),
         DbQuery (InsertProcessed ''2'' 200) (Inr [''2'']),
         Sleep 1000,
         TelegramSend (example_tweet ''2'' 200) (Inr True),
         DiscordSend (example_tweet ''2'' 200) (Inr True),
         DbQuery (InsertProcessed ''2'' 200) (Inr []),
         Sleep 1000] \<and>
   filter is_exists_query (trace (snd (snd (process (example_env example_feed_dup)
          initial_service (example_world [example_row ''1'' 100]))))) = [] \<and>
   \<not> rechecked (trace (snd (snd (process (example_env example_feed_dup)
          initial_service (example_world [example_row ''1'' 100])))))"
  by (simp add: process_example_feed_dup)

end
